theory Spec2Isabelle
  imports Main "HOL-Library.AList"
begin

section \<open>Python values\<close>

text \<open>
  The values that travel through \<^verbatim>\<open>fhirpy/base/lib.py\<close>: what \<^verbatim>\<open>json.loads\<close> returns and
  what is handed to the transport as \<^verbatim>\<open>json=\<close>. Python's \<^verbatim>\<open>None\<close> is \<open>JNull\<close>; a dict is an
  association list in insertion order. Floating point numbers are not modelled.
\<close>

datatype json =
    JNull
  | JBool bool
  | JNum int
  | JStr string
  | JArr "json list"
  | JObj "(string \<times> json) list"

type_synonym dict = "(string \<times> json) list"

text \<open>Python's truth value of an object, as tested by \<^verbatim>\<open>if x:\<close> and \<^verbatim>\<open>not x\<close>.\<close>

fun truthy :: "json \<Rightarrow> bool" where
  "truthy JNull = False"
| "truthy (JBool b) = b"
| "truthy (JNum n) = (n \<noteq> 0)"
| "truthy (JStr s) = (s \<noteq> [])"
| "truthy (JArr xs) = (xs \<noteq> [])"
| "truthy (JObj kvs) = (kvs \<noteq> [])"

text \<open>
  The exceptions the module raises or lets through. \<open>ValueError\<close> and \<open>TypeError\<close> carry the
  message of the \<^verbatim>\<open>raise\<close> statement; \<open>PyTypeError\<close> is a \<^verbatim>\<open>TypeError\<close> raised by the
  interpreter itself (subscripting a value that is not a dict with a string, \<^verbatim>\<open>**\<close> on a value
  that is not a mapping), \<open>KeyError\<close> carries the missing key, \<open>TransportError\<close> is whatever
  the HTTP library raises. \<^verbatim>\<open>OperationOutcome(resource=...)\<close> and
  \<^verbatim>\<open>OperationOutcome(reason=...)\<close> are the two ways the module builds that exception.
\<close>

datatype error =
    ValueError string
  | TypeError string
  | PyTypeError
  | KeyError string
  | JSONDecodeError
  | AssertionError
  | ResourceNotFound string
  | MultipleResourcesFound string
  | OperationOutcomeResource json
  | OperationOutcomeReason string
  | TransportError string

section \<open>String operations\<close>

text \<open>\<^verbatim>\<open>s.rstrip("/")\<close> and \<^verbatim>\<open>s.lstrip("/")\<close>.\<close>

definition lstrip_slash :: "string \<Rightarrow> string" where
  "lstrip_slash s = dropWhile (\<lambda>c. c = CHR ''/'') s"

definition rstrip_slash :: "string \<Rightarrow> string" where
  "rstrip_slash s = rev (dropWhile (\<lambda>c. c = CHR ''/'') (rev s))"

text \<open>\<^verbatim>\<open>s.startswith(p)\<close> and the substring test \<^verbatim>\<open>n in s\<close>.\<close>

fun starts_with :: "string \<Rightarrow> string \<Rightarrow> bool" where
  "starts_with [] s = True"
| "starts_with (p # ps) [] = False"
| "starts_with (p # ps) (c # cs) = (p = c \<and> starts_with ps cs)"

fun contains :: "string \<Rightarrow> string \<Rightarrow> bool" where
  "contains n [] = (n = [])"
| "contains n (c # cs) = (starts_with n (c # cs) \<or> contains n cs)"

section \<open>Collaborators outside the module\<close>

text \<open>
  \<^verbatim>\<open>lib.py\<close> calls into \<^verbatim>\<open>yarl\<close>, \<^verbatim>\<open>urllib\<close>, \<^verbatim>\<open>json\<close> and into helpers of the package that
  live in other files (\<^verbatim>\<open>fhirpy.base.utils\<close>, \<^verbatim>\<open>fhirpy.base.searchset\<close>,
  \<^verbatim>\<open>fhirpy.base.resource\<close>). Their results are taken as given: every function below is a
  parameter, and the theorems hold for all of them.
\<close>

text \<open>
  The resource container of \<^verbatim>\<open>fhirpy.base.resource\<close>: a dict of fields, with the resource
  type as an attribute of the object.
\<close>

record resource =
  resource_type :: string
  res_fields :: dict

text \<open>
  Modelled from the spec: the container's attribute access for \<^verbatim>\<open>id\<close>
  (\<^verbatim>\<open>BaseResource.id\<close> is not in \<^verbatim>\<open>lib.py\<close>). The spec gives the container an optional
  \<^verbatim>\<open>id\<close> among its fields; an absent field reads as \<^verbatim>\<open>None\<close>.
\<close>

definition resource_id :: "resource \<Rightarrow> json" where
  "resource_id r = (case map_of (res_fields r) ''id'' of None \<Rightarrow> JNull | Some v \<Rightarrow> v)"

text \<open>The fields of \<^verbatim>\<open>urllib.parse.urlparse(u)\<close> that the module reads.\<close>

record parsed_url =
  scheme :: string
  netloc :: string
  upath :: string
  query :: string
  fragment :: string
  port :: "nat option"

record env =
  is_absolute :: "string \<Rightarrow> bool"
    \<comment> \<open>\<^verbatim>\<open>URL(path).is_absolute()\<close>\<close>
  urlparse :: "string \<Rightarrow> parsed_url"
    \<comment> \<open>\<^verbatim>\<open>urllib.parse.urlparse\<close>\<close>
  url_path :: "string \<Rightarrow> string"
    \<comment> \<open>\<^verbatim>\<open>URL(url).path\<close>\<close>
  remove_prefix :: "string \<Rightarrow> string \<Rightarrow> string"
    \<comment> \<open>\<^verbatim>\<open>fhirpy.base.utils.remove_prefix\<close>\<close>
  encode_params :: "dict \<Rightarrow> string"
    \<comment> \<open>\<^verbatim>\<open>fhirpy.base.utils.encode_params\<close>\<close>
  json_loads :: "string \<Rightarrow> json option"
    \<comment> \<open>\<^verbatim>\<open>json.loads\<close>; \<open>None\<close> is \<^verbatim>\<open>JSONDecodeError\<close>\<close>
  parse_pagination_url :: "string \<Rightarrow> string \<times> dict option"
    \<comment> \<open>\<^verbatim>\<open>fhirpy.base.utils.parse_pagination_url\<close>\<close>
  next_link :: "json \<Rightarrow> string option"
    \<comment> \<open>\<^verbatim>\<open>get_by_path(bundle, ["link", {"relation": "next"}, "url"])\<close>\<close>
  get_bundle_resources :: "json \<Rightarrow> json list"
    \<comment> \<open>\<^verbatim>\<open>AbstractSearchSet._get_bundle_resources\<close>\<close>
  serialize :: "resource \<Rightarrow> dict"
    \<comment> \<open>\<^verbatim>\<open>BaseResource.serialize\<close>\<close>
  get_path :: "resource \<Rightarrow> string"
    \<comment> \<open>\<^verbatim>\<open>BaseResource._get_path\<close>\<close>
  resource_ctor :: "string \<Rightarrow> dict \<Rightarrow> error + dict"
    \<comment> \<open>\<^verbatim>\<open>client.resource(resource_type, **fields)\<close>: the fields of the new container\<close>

section \<open>AbstractClient\<close>

record client =
  url :: string
  authorization :: "string option"
  extra_headers :: "(string \<times> string) list option"

text \<open>\<^verbatim>\<open>{**headers, **extra}\<close>: the keys of \<open>extra\<close> are set one after the other.\<close>

definition dict_merge :: "('k \<times> 'v) list \<Rightarrow> ('k \<times> 'v) list \<Rightarrow> ('k \<times> 'v) list" where
  "dict_merge d e = foldl (\<lambda>acc kv. AList.update (fst kv) (snd kv) acc) d e"

text \<open>\<^verbatim>\<open>AbstractClient._build_request_headers\<close> (lines 81-90).\<close>

definition build_request_headers :: "'a client_scheme \<Rightarrow> (string \<times> string) list" where
  "build_request_headers c =
     (let headers = [(''Accept'', ''application/fhir+json'')];
          headers = (case authorization c of
                       None \<Rightarrow> headers
                     | Some a \<Rightarrow> if a \<noteq> [] then AList.update ''Authorization'' a headers
                                else headers)
      in case extra_headers c of
           None \<Rightarrow> headers
         | Some extra \<Rightarrow> dict_merge headers extra)"


text \<open>
  Lines 94-99 of \<^verbatim>\<open>_build_request_url\<close>: the rewrite of an absolute \<open>path\<close> before the
  containment check. \<^verbatim>\<open>if urlparse(self.url).port:\<close> tests the truth value of the port, so
  a base URL without a port and one with port \<open>0\<close> both skip the rewrite.
\<close>

definition normalize_port :: "env \<Rightarrow> string \<Rightarrow> string \<Rightarrow> string" where
  "normalize_port e base path =
     (if (case port (urlparse e base) of None \<Rightarrow> False | Some p \<Rightarrow> p \<noteq> 0) then
        (let parsed = urlparse e path in
         if port parsed = None \<and> scheme parsed = ''https'' then
           scheme parsed @ ''://'' @ netloc parsed @ '':443'' @ upath parsed @ ''?'' @ query parsed
             @ (if fragment parsed \<noteq> [] then ''#'' @ fragment parsed else [])
         else path)
      else path)"

definition security_message :: "string \<Rightarrow> string \<Rightarrow> string" where
  "security_message path base =
     ''Request url \"'' @ path @ ''\" does not contain base url \"'' @ base
       @ ''\" (possible security issue)''"

text \<open>\<^verbatim>\<open>AbstractClient._build_request_url\<close> (lines 92-111).\<close>

definition build_request_url :: "env \<Rightarrow> string \<Rightarrow> string \<Rightarrow> dict option \<Rightarrow> error + string" where
  "build_request_url e base path params =
     (if is_absolute e path then
        (let path' = normalize_port e base path in
         if contains (rstrip_slash base) (rstrip_slash path') then Inr path'
         else Inl (ValueError (security_message path' base)))
      else
        (let path1 = lstrip_slash path;
             base_url_path = lstrip_slash (url_path e base) @ ''/'';
             path2 = remove_prefix e path1 base_url_path;
             params' = (case params of None \<Rightarrow> [] | Some ps \<Rightarrow> ps)
         in Inr (rstrip_slash base @ ''/'' @ lstrip_slash path2 @ ''?'' @ encode_params e params')))"

section \<open>Transport\<close>

text \<open>
  One call of the HTTP library: \<^verbatim>\<open>requests.request\<close>, \<^verbatim>\<open>session.request\<close> of a
  \<^verbatim>\<open>requests\<close> session, or \<^verbatim>\<open>session.request\<close> of \<^verbatim>\<open>aiohttp\<close>. The request holds the
  arguments of the call (\<open>req_options\<close> are the keyword arguments forwarded from
  \<^verbatim>\<open>requests_config\<close> or \<^verbatim>\<open>aiohttp_config\<close>); the call returns a response or raises.
\<close>

record request =
  req_method :: string
  req_url :: string
  req_json :: json
  req_headers :: "(string \<times> string) list"
  req_options :: dict

record response =
  status_code :: int
  content :: string

type_synonym transport = "request \<Rightarrow> error + response"

text \<open>
  What \<^verbatim>\<open>_do_request\<close> returns: \<^verbatim>\<open>r_data\<close>, or the tuple \<^verbatim>\<open>(r_data, status)\<close> when
  \<^verbatim>\<open>returning_status\<close> is set.
\<close>

datatype ret = Plain json | WithStatus json int

text \<open>The truth value of a returned object; a tuple of two components is true.\<close>

fun ret_truthy :: "ret \<Rightarrow> bool" where
  "ret_truthy (Plain v) = truthy v"
| "ret_truthy (WithStatus v st) = True"

text \<open>The returned object as a value, a tuple read as the sequence of its components.\<close>

fun ret_value :: "ret \<Rightarrow> json" where
  "ret_value (Plain v) = v"
| "ret_value (WithStatus v st) = JArr [v, JNum st]"

section \<open>SyncClient\<close>

text \<open>
  \<^verbatim>\<open>requests_config\<close> is split into its \<^verbatim>\<open>session\<close> entry (a session is its
  \<^verbatim>\<open>request\<close> method) and the other entries.
\<close>

record sync_client = client +
  session :: "transport option"
  requests_options :: dict

record sync_outcome =
  s_result :: "error + ret"
  s_sent :: "request list"
  s_client :: sync_client

text \<open>Lines 188-205 of \<^verbatim>\<open>SyncClient._do_request\<close>: the response is classified.\<close>

definition sync_handle_response :: "env \<Rightarrow> response \<Rightarrow> bool \<Rightarrow> error + ret" where
  "sync_handle_response e r returning_status =
     (if 200 \<le> status_code r \<and> status_code r < 300 then
        (if content r \<noteq> [] then
           (case json_loads e (content r) of
              None \<Rightarrow> Inl JSONDecodeError
            | Some r_data \<Rightarrow>
                Inr (if returning_status then WithStatus r_data (status_code r) else Plain r_data))
         else Inr (if returning_status then WithStatus JNull (status_code r) else Plain JNull))
      else if status_code r = 404 \<or> status_code r = 410 then
        Inl (ResourceNotFound (content r))
      else if status_code r = 412 then
        Inl (MultipleResourcesFound (content r))
      else
        (let data = content r in
         case json_loads e data of
           None \<Rightarrow> Inl (OperationOutcomeReason data)
         | Some parsed_data \<Rightarrow>
             (case parsed_data of
                JObj kvs \<Rightarrow>
                  (case map_of kvs ''resourceType'' of
                     None \<Rightarrow> Inl (OperationOutcomeReason data)
                   | Some rt \<Rightarrow>
                       if rt = JStr ''OperationOutcome'' then
                         Inl (OperationOutcomeResource parsed_data)
                       else Inl (OperationOutcomeReason data))
              | _ \<Rightarrow> Inl PyTypeError)))"

text \<open>
  \<^verbatim>\<open>SyncClient._do_request\<close> (lines 171-205); \<open>sync_request_headers\<close> is lines 172-175.
  The session is popped from \<^verbatim>\<open>requests_config\<close> before the call and put back on the line
  after it, which an exception of the call skips.
\<close>

definition sync_request_headers :: "'a client_scheme \<Rightarrow> string \<Rightarrow> (string \<times> string) list" where
  "sync_request_headers c method =
     (let headers = build_request_headers c;
          headers = AList.update ''Content-Type'' ''application/fhir+json'' headers
      in if method = ''patch''
         then AList.update ''Content-Type'' ''application/json-patch+json'' headers
         else headers)"

definition sync_do_request ::
  "env \<Rightarrow> sync_client \<Rightarrow> transport \<Rightarrow> string \<Rightarrow> string \<Rightarrow> json \<Rightarrow> dict option \<Rightarrow> bool
     \<Rightarrow> sync_outcome" where
  "sync_do_request e c requests_request method path data params returning_status =
     (let headers = sync_request_headers c method
      in case build_request_url e (url c) path params of
           Inl err \<Rightarrow> \<lparr>s_result = Inl err, s_sent = [], s_client = c\<rparr>
         | Inr u \<Rightarrow>
             (let req = \<lparr>req_method = method, req_url = u, req_json = data,
                         req_headers = headers, req_options = requests_options c\<rparr>
              in case session c of
                   Some sess \<Rightarrow>
                     (case sess req of
                        Inl err \<Rightarrow>
                          \<lparr>s_result = Inl err, s_sent = [req], s_client = c\<lparr>session := None\<rparr>\<rparr>
                      | Inr r \<Rightarrow>
                          \<lparr>s_result = sync_handle_response e r returning_status,
                           s_sent = [req], s_client = c\<lparr>session := Some sess\<rparr>\<rparr>)
                 | None \<Rightarrow>
                     (case requests_request req of
                        Inl err \<Rightarrow> \<lparr>s_result = Inl err, s_sent = [req], s_client = c\<rparr>
                      | Inr r \<Rightarrow>
                          \<lparr>s_result = sync_handle_response e r returning_status,
                           s_sent = [req], s_client = c\<rparr>)))"


definition sync_fetch_resource ::
  "env \<Rightarrow> sync_client \<Rightarrow> transport \<Rightarrow> string \<Rightarrow> dict option \<Rightarrow> sync_outcome" where
  "sync_fetch_resource e c tr path params = sync_do_request e c tr ''get'' path JNull params False"

section \<open>AsyncClient\<close>

record async_client = client +
  aiohttp_config :: dict

record async_outcome =
  a_result :: "error + ret"
  a_sent :: "request list"

text \<open>Lines 132-150 of \<^verbatim>\<open>AsyncClient._do_request\<close>.\<close>

definition async_handle_response :: "env \<Rightarrow> response \<Rightarrow> bool \<Rightarrow> error + ret" where
  "async_handle_response e r returning_status =
     (if 200 \<le> status_code r \<and> status_code r < 300 then
        (let data = content r in
         case (if data \<noteq> [] then json_loads e data else Some JNull) of
           None \<Rightarrow> Inl JSONDecodeError
         | Some r_data \<Rightarrow>
             Inr (if returning_status then WithStatus r_data (status_code r) else Plain r_data))
      else if status_code r = 404 \<or> status_code r = 410 then
        Inl (ResourceNotFound (content r))
      else if status_code r = 412 then
        Inl (MultipleResourcesFound (content r))
      else
        (let data = content r in
         case json_loads e data of
           None \<Rightarrow> Inl (OperationOutcomeReason data)
         | Some parsed_data \<Rightarrow>
             (case parsed_data of
                JObj kvs \<Rightarrow>
                  (case map_of kvs ''resourceType'' of
                     None \<Rightarrow> Inl (OperationOutcomeReason data)
                   | Some rt \<Rightarrow>
                       if rt = JStr ''OperationOutcome'' then
                         Inl (OperationOutcomeResource parsed_data)
                       else Inl (OperationOutcomeReason data))
              | _ \<Rightarrow> Inl PyTypeError)))"

text \<open>
  \<^verbatim>\<open>AsyncClient._do_request\<close> (lines 125-150); \<open>async_request_headers\<close> is lines 126 and
  128-129, which do not depend on the URL built in between.
\<close>

definition async_request_headers :: "'a client_scheme \<Rightarrow> string \<Rightarrow> (string \<times> string) list" where
  "async_request_headers c method =
     (let headers = build_request_headers c
      in if method = ''patch''
         then AList.update ''Content-Type'' ''application/json-patch+json'' headers
         else headers)"

definition async_do_request ::
  "env \<Rightarrow> async_client \<Rightarrow> transport \<Rightarrow> string \<Rightarrow> string \<Rightarrow> json \<Rightarrow> dict option \<Rightarrow> bool
     \<Rightarrow> async_outcome" where
  "async_do_request e c session_request method path data params returning_status =
     (let headers = async_request_headers c method
      in case build_request_url e (url c) path params of
           Inl err \<Rightarrow> \<lparr>a_result = Inl err, a_sent = []\<rparr>
         | Inr u \<Rightarrow>
             (let req = \<lparr>req_method = method, req_url = u, req_json = data,
                         req_headers = headers, req_options = aiohttp_config c\<rparr>
              in case session_request req of
                   Inl err \<Rightarrow> \<lparr>a_result = Inl err, a_sent = [req]\<rparr>
                 | Inr r \<Rightarrow>
                     \<lparr>a_result = async_handle_response e r returning_status, a_sent = [req]\<rparr>))"



section \<open>SyncResource and AsyncResource\<close>

definition id_required_message :: string where
  "id_required_message =
     ''Resource '' @ [CHR 0x60] @ ''id'' @ [CHR 0x60] @ '' is required for update operation''"

text \<open>
  The loop of lines 409-418: one JSON Patch operation per field, in the order of
  \<^verbatim>\<open>fields\<close>; \<^verbatim>\<open>data[key]\<close> raises \<^verbatim>\<open>KeyError\<close> at the first key that \<open>data\<close> lacks.
\<close>

fun sync_patch_body :: "dict \<Rightarrow> string list \<Rightarrow> error + json list" where
  "sync_patch_body data [] = Inr []"
| "sync_patch_body data (key # keys) =
     (case map_of data key of
        None \<Rightarrow> Inl (KeyError key)
      | Some v \<Rightarrow>
          (case sync_patch_body data keys of
             Inl err \<Rightarrow> Inl err
           | Inr ops \<Rightarrow>
               Inr (JObj [(''op'', JStr ''add''), (''path'', JStr (''/'' @ key)), (''value'', v)]
                      # ops)))"

text \<open>The dict comprehension of line 478: \<^verbatim>\<open>{key: data[key] for key in fields}\<close>.\<close>

fun async_patch_body :: "dict \<Rightarrow> string list \<Rightarrow> dict \<Rightarrow> error + dict" where
  "async_patch_body data [] acc = Inr acc"
| "async_patch_body data (key # keys) acc =
     (case map_of data key of
        None \<Rightarrow> Inl (KeyError key)
      | Some v \<Rightarrow> async_patch_body data keys (AList.update key v acc))"

text \<open>
  Lines 405-422 of \<^verbatim>\<open>SyncResource.save\<close>: the method and the body of the request, or the
  exception raised before any request. \<open>field_names\<close> (the argument \<^verbatim>\<open>fields\<close>) is
  \<^verbatim>\<open>None\<close> or a sequence of field names;
  \<^verbatim>\<open>if fields:\<close> holds for a sequence that is not empty.
\<close>

definition sync_save_request :: "env \<Rightarrow> resource \<Rightarrow> string list option \<Rightarrow> error + string \<times> json" where
  "sync_save_request e res field_names =
     (let data = serialize e res in
      case field_names of
        Some (f # fs) \<Rightarrow>
          (if \<not> truthy (resource_id res) then Inl (TypeError id_required_message)
           else case sync_patch_body data (f # fs) of
                  Inl err \<Rightarrow> Inl err
                | Inr request_data \<Rightarrow> Inr (''patch'', JArr request_data))
      | _ \<Rightarrow> Inr (if truthy (resource_id res) then ''put'' else ''post'', JObj data))"

text \<open>Lines 474-481 of \<^verbatim>\<open>AsyncResource.save\<close>.\<close>

definition async_save_request :: "env \<Rightarrow> resource \<Rightarrow> string list option \<Rightarrow> error + string \<times> json" where
  "async_save_request e res field_names =
     (let data = serialize e res in
      case field_names of
        Some (f # fs) \<Rightarrow>
          (if \<not> truthy (resource_id res) then Inl (TypeError id_required_message)
           else case async_patch_body data (f # fs) [] of
                  Inl err \<Rightarrow> Inl err
                | Inr data' \<Rightarrow> Inr (''patch'', JObj data'))
      | _ \<Rightarrow> Inr (if truthy (resource_id res) then ''put'' else ''post'', JObj data))"

text \<open>
  Lines 426-430 (and, word for word, 486-490): when the response is true the container is
  cleared and then filled from \<^verbatim>\<open>client.resource(resource_type, **response_data)\<close>. The
  argument is evaluated after the \<^verbatim>\<open>clear()\<close>, so an exception there leaves the container
  empty; \<^verbatim>\<open>**\<close> raises on a response that is not an object.
\<close>

definition replace_fields :: "env \<Rightarrow> resource \<Rightarrow> ret \<Rightarrow> (error + unit) \<times> resource" where
  "replace_fields e res response_data =
     (if ret_truthy response_data then
        (case response_data of
           Plain (JObj kvs) \<Rightarrow>
             (case resource_ctor e (resource_type res) kvs of
                Inl err \<Rightarrow> (Inl err, res\<lparr>res_fields := []\<rparr>)
              | Inr new \<Rightarrow> (Inr (), res\<lparr>res_fields := dict_merge [] new\<rparr>))
         | _ \<Rightarrow> (Inl PyTypeError, res\<lparr>res_fields := []\<rparr>))
      else (Inr (), res))"

record sync_res_outcome =
  r_result :: "error + unit"
  r_sent :: "request list"
  r_resource :: resource
  r_client :: sync_client

record async_res_outcome =
  ar_result :: "error + unit"
  ar_sent :: "request list"
  ar_resource :: resource

text \<open>\<^verbatim>\<open>SyncResource.save\<close> (lines 404-430).\<close>

definition sync_save ::
  "env \<Rightarrow> sync_client \<Rightarrow> transport \<Rightarrow> resource \<Rightarrow> string list option \<Rightarrow> dict option
     \<Rightarrow> sync_res_outcome" where
  "sync_save e c tr res field_names search_params =
     (case sync_save_request e res field_names of
        Inl err \<Rightarrow> \<lparr>r_result = Inl err, r_sent = [], r_resource = res, r_client = c\<rparr>
      | Inr (method, data) \<Rightarrow>
          (let out = sync_do_request e c tr method (get_path e res) data search_params False
           in case s_result out of
                Inl err \<Rightarrow>
                  \<lparr>r_result = Inl err, r_sent = s_sent out, r_resource = res,
                   r_client = s_client out\<rparr>
              | Inr response_data \<Rightarrow>
                  \<lparr>r_result = fst (replace_fields e res response_data), r_sent = s_sent out,
                   r_resource = snd (replace_fields e res response_data),
                   r_client = s_client out\<rparr>))"

text \<open>\<^verbatim>\<open>AsyncResource.save\<close> (lines 473-490).\<close>

definition async_save ::
  "env \<Rightarrow> async_client \<Rightarrow> transport \<Rightarrow> resource \<Rightarrow> string list option \<Rightarrow> dict option
     \<Rightarrow> async_res_outcome" where
  "async_save e c tr res field_names search_params =
     (case async_save_request e res field_names of
        Inl err \<Rightarrow> \<lparr>ar_result = Inl err, ar_sent = [], ar_resource = res\<rparr>
      | Inr (method, data) \<Rightarrow>
          (let out = async_do_request e c tr method (get_path e res) data search_params False
           in case a_result out of
                Inl err \<Rightarrow> \<lparr>ar_result = Inl err, ar_sent = a_sent out, ar_resource = res\<rparr>
              | Inr response_data \<Rightarrow>
                  \<lparr>ar_result = fst (replace_fields e res response_data), ar_sent = a_sent out,
                   ar_resource = snd (replace_fields e res response_data)\<rparr>))"

text \<open>\<^verbatim>\<open>SyncResource.update\<close> (lines 436-439) and \<^verbatim>\<open>AsyncResource.update\<close> (496-499).\<close>

definition sync_update :: "env \<Rightarrow> sync_client \<Rightarrow> transport \<Rightarrow> resource \<Rightarrow> sync_res_outcome" where
  "sync_update e c tr res =
     (if \<not> truthy (resource_id res) then
        \<lparr>r_result = Inl (TypeError id_required_message), r_sent = [], r_resource = res,
         r_client = c\<rparr>
      else sync_save e c tr res None None)"

definition async_update :: "env \<Rightarrow> async_client \<Rightarrow> transport \<Rightarrow> resource \<Rightarrow> async_res_outcome" where
  "async_update e c tr res =
     (if \<not> truthy (resource_id res) then
        \<lparr>ar_result = Inl (TypeError id_required_message), ar_sent = [], ar_resource = res\<rparr>
      else async_save e c tr res None None)"

text \<open>
  \<^verbatim>\<open>SyncResource.patch\<close> (lines 441-443) and \<^verbatim>\<open>AsyncResource.patch\<close> (501-503): the
  keyword arguments are merged into the container by \<^verbatim>\<open>dict.update\<close>, then \<^verbatim>\<open>save\<close> runs
  with their keys.
\<close>

definition sync_patch ::
  "env \<Rightarrow> sync_client \<Rightarrow> transport \<Rightarrow> resource \<Rightarrow> dict \<Rightarrow> sync_res_outcome" where
  "sync_patch e c tr res kwargs =
     sync_save e c tr (res\<lparr>res_fields := dict_merge (res_fields res) kwargs\<rparr>)
       (Some (map fst kwargs)) None"

definition async_patch ::
  "env \<Rightarrow> async_client \<Rightarrow> transport \<Rightarrow> resource \<Rightarrow> dict \<Rightarrow> async_res_outcome" where
  "async_patch e c tr res kwargs =
     async_save e c tr (res\<lparr>res_fields := dict_merge (res_fields res) kwargs\<rparr>)
       (Some (map fst kwargs)) None"

section \<open>SyncSearchSet\<close>

record searchset =
  ss_resource_type :: string
  ss_params :: dict

text \<open>\<^verbatim>\<open>SyncSearchSet.patch\<close> (lines 277-283).\<close>

definition sync_searchset_patch ::
  "env \<Rightarrow> sync_client \<Rightarrow> transport \<Rightarrow> searchset \<Rightarrow> resource \<Rightarrow> sync_outcome" where
  "sync_searchset_patch e c tr ss res =
     (if resource_type res = ss_resource_type ss then
        sync_do_request e c tr ''PATCH'' (ss_resource_type ss) (JObj (serialize e res))
          (Some (ss_params ss)) False
      else \<lparr>s_result = Inl AssertionError, s_sent = [], s_client = c\<rparr>)"

text \<open>
  \<^verbatim>\<open>SyncSearchSet.__iter__\<close> (lines 290-304), drained. The generator yields the resources of
  a page before it fetches the next one, so what has been yielded stays yielded when a later
  fetch raises: the outcome holds the items yielded, the exception that ended the iteration
  (if any), the transport calls made and the client afterwards. The \<^verbatim>\<open>while True\<close> loop
  need not end; not returning is \<open>None\<close>.
\<close>

record iter_outcome =
  yielded :: "json list"
  it_error :: "error option"
  it_sent :: "request list"
  it_client :: sync_client

definition link_truthy :: "string option \<Rightarrow> bool" where
  "link_truthy l = (case l of None \<Rightarrow> False | Some u \<Rightarrow> u \<noteq> [])"

partial_function (option) sync_iter_loop ::
  "env \<Rightarrow> transport \<Rightarrow> searchset \<Rightarrow> string option \<Rightarrow> iter_outcome \<Rightarrow> iter_outcome option" where
  "sync_iter_loop e tr ss nxt acc =
     (let out = (case nxt of
                   Some u \<Rightarrow>
                     (if u \<noteq> [] then
                        sync_fetch_resource e (it_client acc) tr
                          (fst (parse_pagination_url e u)) (snd (parse_pagination_url e u))
                      else sync_fetch_resource e (it_client acc) tr
                             (ss_resource_type ss) (Some (ss_params ss)))
                 | None \<Rightarrow> sync_fetch_resource e (it_client acc) tr
                             (ss_resource_type ss) (Some (ss_params ss)))
      in case s_result out of
           Inl err \<Rightarrow>
             Some (acc\<lparr>it_error := Some err, it_sent := it_sent acc @ s_sent out,
                       it_client := s_client out\<rparr>)
         | Inr bundle \<Rightarrow>
             (let bundle_data = ret_value bundle;
                  new_resources = get_bundle_resources e bundle_data;
                  nxt' = next_link e bundle_data;
                  acc' = acc\<lparr>yielded := yielded acc @ new_resources,
                             it_sent := it_sent acc @ s_sent out, it_client := s_client out\<rparr>
              in if link_truthy nxt' then sync_iter_loop e tr ss nxt' acc' else Some acc'))"

definition sync_iter :: "env \<Rightarrow> sync_client \<Rightarrow> transport \<Rightarrow> searchset \<Rightarrow> iter_outcome option" where
  "sync_iter e c tr ss =
     sync_iter_loop e tr ss None \<lparr>yielded = [], it_error = None, it_sent = [], it_client = c\<rparr>"

text \<open>\<^verbatim>\<open>SyncSearchSet.fetch_all\<close> (lines 227-228): the list of what the iteration yields.\<close>

definition sync_fetch_all :: "env \<Rightarrow> sync_client \<Rightarrow> transport \<Rightarrow> searchset \<Rightarrow> iter_outcome option" where
  "sync_fetch_all e c tr ss = sync_iter e c tr ss"

text \<open>
  What the pagination claim assumes of the server, for a list of pages: fetching at the
  given path and parameters returns the first page; every page but the last has a
  \<^verbatim>\<open>next\<close> link that is true, and fetching what \<^verbatim>\<open>parse_pagination_url\<close> makes of it
  returns the page that follows; the last page has no \<^verbatim>\<open>next\<close> link (or an empty one).
\<close>

fun page_chain ::
  "env \<Rightarrow> sync_client \<Rightarrow> transport \<Rightarrow> string \<Rightarrow> dict option \<Rightarrow> json list \<Rightarrow> bool" where
  "page_chain e c tr path params [] = False"
| "page_chain e c tr path params [page] =
     (s_result (sync_fetch_resource e c tr path params) = Inr (Plain page)
      \<and> \<not> link_truthy (next_link e page))"
| "page_chain e c tr path params (page # following # rest) =
     (s_result (sync_fetch_resource e c tr path params) = Inr (Plain page)
      \<and> (case next_link e page of
            None \<Rightarrow> False
          | Some u \<Rightarrow>
              u \<noteq> []
              \<and> page_chain e c tr (fst (parse_pagination_url e u))
                    (snd (parse_pagination_url e u)) (following # rest)))"

section \<open>What the two modes are compared on\<close>



section \<open>Library results used by the examples\<close>

text \<open>
  The closed examples below need the collaborators at concrete strings. \<open>example_env\<close>
  tabulates what the libraries return on exactly the strings the examples use
  (\<^verbatim>\<open>urlparse\<close> of four URLs, whose last line is the result for a relative path without
  \<^verbatim>\<open>?\<close>, \<^verbatim>\<open>#\<close> or \<^verbatim>\<open>;\<close>; \<^verbatim>\<open>json.loads\<close> of a handful of bodies, every other body of the
  examples not being JSON) and gives the helpers of the package that are not in
  \<^verbatim>\<open>lib.py\<close> simple stand-ins. It is used by no general theorem.
\<close>

definition example_urlparse :: "string \<Rightarrow> parsed_url" where
  "example_urlparse u =
     (if u = ''https://example.com/fhir/Patient?_count=2#top'' then
        \<lparr>scheme = ''https'', netloc = ''example.com'', upath = ''/fhir/Patient'',
         query = ''_count=2'', fragment = ''top'', port = None\<rparr>
      else if u = ''https://example.com:443/fhir'' then
        \<lparr>scheme = ''https'', netloc = ''example.com:443'', upath = ''/fhir'',
         query = [], fragment = [], port = Some 443\<rparr>
      else if u = ''https://example.com:0/fhir'' then
        \<lparr>scheme = ''https'', netloc = ''example.com:0'', upath = ''/fhir'',
         query = [], fragment = [], port = Some 0\<rparr>
      else if u = ''http://example.com/fhir'' then
        \<lparr>scheme = ''http'', netloc = ''example.com'', upath = ''/fhir'',
         query = [], fragment = [], port = None\<rparr>
      else
        \<lparr>scheme = [], netloc = [], upath = u, query = [], fragment = [], port = None\<rparr>)"

text \<open>Three pages of a search, as the server sends them and as \<^verbatim>\<open>json.loads\<close> decodes them.\<close>

definition example_body1 :: string where
  "example_body1 =
     ''{\"resourceType\": \"Bundle\", \"entry\": [{\"resource\": {\"id\": \"a\"}}], ''
     @ ''\"link\": [{\"relation\": \"next\", \"url\": \"http://example.com/fhir/Patient?page=2\"}]}''"

definition example_body2 :: string where
  "example_body2 =
     ''{\"resourceType\": \"Bundle\", \"entry\": [{\"resource\": {\"id\": \"b\"}}], ''
     @ ''\"link\": [{\"relation\": \"next\", \"url\": \"http://example.com/fhir/Patient?page=3\"}]}''"

definition example_body3 :: string where
  "example_body3 =
     ''{\"resourceType\": \"Bundle\", \"entry\": [{\"resource\": {\"id\": \"c\"}}], \"link\": []}''"

definition example_page :: "string \<Rightarrow> json list \<Rightarrow> json" where
  "example_page i link =
     JObj [(''resourceType'', JStr ''Bundle''),
           (''entry'', JArr [JObj [(''resource'', JObj [(''id'', JStr i)])]]),
           (''link'', JArr link)]"

definition example_page1 :: json where
  "example_page1 =
     example_page ''a'' [JObj [(''relation'', JStr ''next''),
                               (''url'', JStr ''http://example.com/fhir/Patient?page=2'')]]"

definition example_page2 :: json where
  "example_page2 =
     example_page ''b'' [JObj [(''relation'', JStr ''next''),
                               (''url'', JStr ''http://example.com/fhir/Patient?page=3'')]]"

definition example_page3 :: json where
  "example_page3 = example_page ''c'' []"

definition example_json_loads :: "string \<Rightarrow> json option" where
  "example_json_loads b =
     (if b = ''[]'' then Some (JArr [])
      else if b = ''{\"resourceType\": \"OperationOutcome\"}'' then
        Some (JObj [(''resourceType'', JStr ''OperationOutcome'')])
      else if b = ''{\"resourceType\": \"Patient\", \"id\": \"42\"}'' then
        Some (JObj [(''resourceType'', JStr ''Patient''), (''id'', JStr ''42'')])
      else if b = example_body1 then Some example_page1
      else if b = example_body2 then Some example_page2
      else if b = example_body3 then Some example_page3
      else None)"

text \<open>
  Stand-ins for \<^verbatim>\<open>get_by_path(bundle, ["link", {"relation": "next"}, "url"])\<close> and for
  \<^verbatim>\<open>_get_bundle_resources\<close>: the URL of the first link entry whose relation is
  \<^verbatim>\<open>next\<close>, and the resources of the entries of a Bundle.
\<close>

definition example_next_link :: "json \<Rightarrow> string option" where
  "example_next_link b =
     (case b of
        JObj kvs \<Rightarrow>
          (case map_of kvs ''link'' of
             Some (JArr links) \<Rightarrow>
               (case filter (\<lambda>l. case l of
                                    JObj lk \<Rightarrow> map_of lk ''relation'' = Some (JStr ''next'')
                                  | _ \<Rightarrow> False) links of
                  JObj lk # _ \<Rightarrow> (case map_of lk ''url'' of Some (JStr u) \<Rightarrow> Some u | _ \<Rightarrow> None)
                | _ \<Rightarrow> None)
           | _ \<Rightarrow> None)
      | _ \<Rightarrow> None)"

definition example_bundle_resources :: "json \<Rightarrow> json list" where
  "example_bundle_resources b =
     (case b of
        JObj kvs \<Rightarrow>
          (if map_of kvs ''resourceType'' = Some (JStr ''Bundle'') then
             (case map_of kvs ''entry'' of
                Some (JArr entries) \<Rightarrow>
                  concat (map (\<lambda>en. case en of
                                       JObj ek \<Rightarrow> (case map_of ek ''resource'' of
                                                     Some r \<Rightarrow> [r] | None \<Rightarrow> [])
                                     | _ \<Rightarrow> []) entries)
              | _ \<Rightarrow> [])
           else [b])
      | _ \<Rightarrow> [b])"

definition example_get_path :: "resource \<Rightarrow> string" where
  "example_get_path r =
     (case resource_id r of
        JStr i \<Rightarrow> if i \<noteq> [] then resource_type r @ ''/'' @ i else resource_type r
      | _ \<Rightarrow> resource_type r)"

definition example_env :: env where
  "example_env =
     \<lparr>is_absolute = (\<lambda>p. starts_with ''http://'' p \<or> starts_with ''https://'' p),
      urlparse = example_urlparse,
      url_path = (\<lambda>u. upath (example_urlparse u)),
      remove_prefix = (\<lambda>s p. if starts_with p s then drop (length p) s else s),
      encode_params = (\<lambda>ps. []),
        \<comment> \<open>the examples encode the empty dict only\<close>
      json_loads = example_json_loads,
      parse_pagination_url = (\<lambda>u. (u, None)),
        \<comment> \<open>the links of the examples are absolute URLs, fetched as they are\<close>
      next_link = example_next_link,
      get_bundle_resources = example_bundle_resources,
      serialize = res_fields,
      get_path = example_get_path,
      resource_ctor = (\<lambda>rt kvs. Inr kvs)\<rparr>"

definition example_sync_client :: sync_client where
  "example_sync_client =
     \<lparr>url = ''http://example.com/fhir'', authorization = None, extra_headers = None,
      session = None, requests_options = [(''timeout'', JNum 120)]\<rparr>"

definition example_async_client :: async_client where
  "example_async_client =
     \<lparr>url = ''http://example.com/fhir'', authorization = None, extra_headers = None,
      aiohttp_config = []\<rparr>"

text \<open>A transport that answers every request with status 200 and no body, and one that
  raises on every request.\<close>

definition empty_ok_transport :: transport where
  "empty_ok_transport req = Inr \<lparr>status_code = 200, content = []\<rparr>"

definition failing_transport :: transport where
  "failing_transport req = Inl (TransportError ''connection refused'')"

text \<open>A server with three pages of patients.\<close>

definition example_pages_transport :: transport where
  "example_pages_transport req =
     (if req_url req = ''http://example.com/fhir/Patient?'' then
        Inr \<lparr>status_code = 200, content = example_body1\<rparr>
      else if req_url req = ''http://example.com/fhir/Patient?page=2'' then
        Inr \<lparr>status_code = 200, content = example_body2\<rparr>
      else if req_url req = ''http://example.com/fhir/Patient?page=3'' then
        Inr \<lparr>status_code = 200, content = example_body3\<rparr>
      else Inr \<lparr>status_code = 404, content = []\<rparr>)"

section \<open>Properties of the string operations\<close>

lemma starts_with_iff: "starts_with p s \<longleftrightarrow> (\<exists>suf. s = p @ suf)"
  by (induction p s rule: starts_with.induct) auto

lemma contains_iff: "contains n s \<longleftrightarrow> (\<exists>pre suf. s = pre @ n @ suf)"
proof (induction s)
  case Nil
  then show ?case by auto
next
  case (Cons c cs)
  show ?case
  proof
    assume "contains n (c # cs)"
    then consider "starts_with n (c # cs)" | "contains n cs" by auto
    then show "\<exists>pre suf. c # cs = pre @ n @ suf"
    proof cases
      case 1
      then obtain suf where "c # cs = n @ suf" by (auto simp: starts_with_iff)
      then have "c # cs = [] @ n @ suf" by simp
      then show ?thesis by blast
    next
      case 2
      with Cons obtain pre suf where "cs = pre @ n @ suf" by auto
      then have "c # cs = (c # pre) @ n @ suf" by simp
      then show ?thesis by blast
    qed
  next
    assume "\<exists>pre suf. c # cs = pre @ n @ suf"
    then obtain pre suf where eq: "c # cs = pre @ n @ suf" by blast
    show "contains n (c # cs)"
    proof (cases pre)
      case Nil
      with eq have "starts_with n (c # cs)" by (auto simp: starts_with_iff)
      then show ?thesis by simp
    next
      case (Cons a pre')
      with eq have "cs = pre' @ n @ suf" by simp
      with Cons.IH have "contains n cs" by blast
      then show ?thesis by simp
    qed
  qed
qed

section \<open>URL building\<close>

lemma rstrip_slash_shape:
  "\<exists>n. s = rstrip_slash s @ replicate n (CHR ''/'')"
proof -
  have "\<exists>n. xs = replicate n (CHR ''/'') @ dropWhile (\<lambda>c. c = CHR ''/'') xs" for xs :: string
  proof (induction xs)
    case Nil
    then show ?case by simp
  next
    case (Cons a xs)
    show ?case
    proof (cases "a = CHR ''/''")
      case True
      from Cons obtain n where "xs = replicate n (CHR ''/'') @ dropWhile (\<lambda>c. c = CHR ''/'') xs"
        by blast
      then have "a # xs = replicate (Suc n) (CHR ''/'') @ dropWhile (\<lambda>c. c = CHR ''/'') (a # xs)"
        using True by simp
      then show ?thesis by blast
    next
      case False
      then have "a # xs = replicate 0 (CHR ''/'') @ dropWhile (\<lambda>c. c = CHR ''/'') (a # xs)"
        by simp
      then show ?thesis by blast
    qed
  qed
  then obtain n where "rev s = replicate n (CHR ''/'') @ dropWhile (\<lambda>c. c = CHR ''/'') (rev s)"
    by blast
  then have "rev (rev s) = rev (replicate n (CHR ''/'') @ dropWhile (\<lambda>c. c = CHR ''/'') (rev s))"
    by simp
  then have "s = rstrip_slash s @ replicate n (CHR ''/'')"
    by (simp add: rstrip_slash_def)
  then show ?thesis by blast
qed

lemma rstrip_slash_no_trailing:
  "rstrip_slash s = [] \<or> last (rstrip_slash s) \<noteq> CHR ''/''"
proof (cases "dropWhile (\<lambda>c. c = CHR ''/'') (rev s) = []")
  case True
  then show ?thesis by (simp add: rstrip_slash_def)
next
  case False
  then have "hd (dropWhile (\<lambda>c. c = CHR ''/'') (rev s)) \<noteq> CHR ''/''"
    by (rule hd_dropWhile)
  then show ?thesis
    unfolding rstrip_slash_def last_rev by (rule disjI2)
qed

text \<open>
  C1. For an absolute \<open>path\<close>, \<^verbatim>\<open>_build_request_url\<close> raises the security error (the
  \<^verbatim>\<open>ValueError\<close> of lines 102-105) exactly when the path, after the port rewrite and with its
  trailing slashes stripped, does not have the base URL (trailing slashes stripped) as a
  substring; otherwise it returns the rewritten path. The right-hand side does not mention
  \<open>params\<close>: the argument is ignored on this branch.
\<close>

theorem C1_absolute_path_containment:
  assumes "is_absolute e path"
  shows "build_request_url e base path params =
           (if (\<exists>pre suf. rstrip_slash (normalize_port e base path)
                              = pre @ rstrip_slash base @ suf)
            then Inr (normalize_port e base path)
            else Inl (ValueError (security_message (normalize_port e base path) base)))"
  using assms by (simp add: build_request_url_def contains_iff Let_def)

theorem C1_witness:
  "is_absolute example_env ''http://example.com/fhir/Patient/''
   \<and> build_request_url example_env ''http://example.com/fhir'' ''http://example.com/fhir/Patient/''
         (Some [(''_count'', JNum 2)])
       = Inr ''http://example.com/fhir/Patient/''"
proof -
  have abs: "is_absolute example_env ''http://example.com/fhir/Patient/''"
    by (simp add: example_env_def)
  have norm: "normalize_port example_env ''http://example.com/fhir''
                ''http://example.com/fhir/Patient/'' = ''http://example.com/fhir/Patient/''"
    by (simp add: normalize_port_def example_env_def example_urlparse_def)
  have sub: "rstrip_slash ''http://example.com/fhir/Patient/''
               = [] @ rstrip_slash ''http://example.com/fhir'' @ ''/Patient''"
    by (simp add: rstrip_slash_def)
  have ex: "\<exists>pre suf. rstrip_slash (normalize_port example_env ''http://example.com/fhir''
                ''http://example.com/fhir/Patient/'') = pre @ rstrip_slash ''http://example.com/fhir'' @ suf"
    unfolding norm using sub by blast
  have "build_request_url example_env ''http://example.com/fhir'' ''http://example.com/fhir/Patient/''
         (Some [(''_count'', JNum 2)]) = Inr (normalize_port example_env ''http://example.com/fhir''
                ''http://example.com/fhir/Patient/'')"
    using C1_absolute_path_containment [OF abs, of "''http://example.com/fhir''"
      "Some [(''_count'', JNum 2)]"] ex by (simp only: if_True)
  with abs norm show ?thesis by simp
qed




section \<open>Response classification\<close>

text \<open>
  C2 (amended). In both modes: a 2xx response with a body that is not empty and that
  \<^verbatim>\<open>json.loads\<close> accepts returns the decoded value, paired with the status code when
  \<^verbatim>\<open>returning_status\<close> is set; a 2xx response whose body \<^verbatim>\<open>json.loads\<close> rejects raises the
  decoder's \<^verbatim>\<open>JSONDecodeError\<close>; a 2xx response with an empty body returns \<^verbatim>\<open>None\<close>;
  404 and 410 raise \<^verbatim>\<open>ResourceNotFound\<close> and 412 raises \<^verbatim>\<open>MultipleResourcesFound\<close>, each
  with the raw body.
\<close>

theorem C2_response_classification:
  "(200 \<le> status_code r \<and> status_code r < 300 \<and> content r \<noteq> []
      \<and> json_loads e (content r) = Some v \<longrightarrow>
        sync_handle_response e r False = Inr (Plain v)
      \<and> sync_handle_response e r True = Inr (WithStatus v (status_code r))
      \<and> async_handle_response e r False = Inr (Plain v)
      \<and> async_handle_response e r True = Inr (WithStatus v (status_code r)))
   \<and> (200 \<le> status_code r \<and> status_code r < 300 \<and> content r \<noteq> []
      \<and> json_loads e (content r) = None \<longrightarrow>
        sync_handle_response e r rs = Inl JSONDecodeError
      \<and> async_handle_response e r rs = Inl JSONDecodeError)
   \<and> (200 \<le> status_code r \<and> status_code r < 300 \<and> content r = [] \<longrightarrow>
        sync_handle_response e r False = Inr (Plain JNull)
      \<and> sync_handle_response e r True = Inr (WithStatus JNull (status_code r))
      \<and> async_handle_response e r False = Inr (Plain JNull)
      \<and> async_handle_response e r True = Inr (WithStatus JNull (status_code r)))
   \<and> (status_code r = 404 \<or> status_code r = 410 \<longrightarrow>
        sync_handle_response e r rs = Inl (ResourceNotFound (content r))
      \<and> async_handle_response e r rs = Inl (ResourceNotFound (content r)))
   \<and> (status_code r = 412 \<longrightarrow>
        sync_handle_response e r rs = Inl (MultipleResourcesFound (content r))
      \<and> async_handle_response e r rs = Inl (MultipleResourcesFound (content r)))"
  by (auto simp: sync_handle_response_def async_handle_response_def)

theorem C2_witness:
  "sync_handle_response example_env
      \<lparr>status_code = 200, content = ''{\"resourceType\": \"Patient\", \"id\": \"42\"}''\<rparr> True
     = Inr (WithStatus (JObj [(''resourceType'', JStr ''Patient''), (''id'', JStr ''42'')]) 200)
   \<and> async_handle_response example_env \<lparr>status_code = 201, content = ''boom''\<rparr> False
     = Inl JSONDecodeError
   \<and> sync_handle_response example_env \<lparr>status_code = 204, content = []\<rparr> False
     = Inr (Plain JNull)
   \<and> sync_handle_response example_env \<lparr>status_code = 410, content = ''gone''\<rparr> False
     = Inl (ResourceNotFound ''gone'')
   \<and> async_handle_response example_env \<lparr>status_code = 412, content = ''two''\<rparr> False
     = Inl (MultipleResourcesFound ''two'')"
proof -
  let ?b = "''{\"resourceType\": \"Patient\", \"id\": \"42\"}''"
  let ?v = "JObj [(''resourceType'', JStr ''Patient''), (''id'', JStr ''42'')]"
  have l1: "json_loads example_env ?b = Some ?v"
    by (simp add: example_env_def example_json_loads_def example_body1_def
        example_body2_def example_body3_def)
  have l2: "json_loads example_env ''boom'' = None"
    by (simp add: example_env_def example_json_loads_def example_body1_def
        example_body2_def example_body3_def)
  have c1: "sync_handle_response example_env \<lparr>status_code = 200, content = ?b\<rparr> True
              = Inr (WithStatus ?v 200)"
    using C2_response_classification
      [of "\<lparr>status_code = 200, content = ?b\<rparr>" example_env ?v True] l1
    by simp
  have c2: "async_handle_response example_env \<lparr>status_code = 201, content = ''boom''\<rparr> False
              = Inl JSONDecodeError"
    using C2_response_classification
      [of "\<lparr>status_code = 201, content = ''boom''\<rparr>" example_env JNull False] l2
    by simp
  have c3: "sync_handle_response example_env \<lparr>status_code = 204, content = []\<rparr> False
              = Inr (Plain JNull)"
    using C2_response_classification
      [of "\<lparr>status_code = 204, content = []\<rparr>" example_env JNull False]
    by simp
  have c4: "sync_handle_response example_env \<lparr>status_code = 410, content = ''gone''\<rparr> False
              = Inl (ResourceNotFound ''gone'')"
    using C2_response_classification
      [of "\<lparr>status_code = 410, content = ''gone''\<rparr>" example_env JNull False]
    by simp
  have c5: "async_handle_response example_env \<lparr>status_code = 412, content = ''two''\<rparr> False
              = Inl (MultipleResourcesFound ''two'')"
    using C2_response_classification
      [of "\<lparr>status_code = 412, content = ''two''\<rparr>" example_env JNull False]
    by simp
  from c1 c2 c3 c4 c5 show ?thesis by (intro conjI)
qed

text \<open>
  The claim as stated fails on a 2xx response whose body is not JSON: the decoder's
  exception escapes.
\<close>

theorem C2_counterexample:
  "sync_handle_response example_env \<lparr>status_code = 200, content = ''boom''\<rparr> False
     = Inl JSONDecodeError
   \<and> async_handle_response example_env \<lparr>status_code = 200, content = ''boom''\<rparr> False
     = Inl JSONDecodeError"
  by (simp add: sync_handle_response_def async_handle_response_def example_env_def
      example_json_loads_def example_body1_def example_body2_def
      example_body3_def)


lemma other_status_classification:
  assumes "\<not> (200 \<le> status_code r \<and> status_code r < 300)"
    and "status_code r \<noteq> 404" and "status_code r \<noteq> 410" and "status_code r \<noteq> 412"
  shows "sync_handle_response e r rs =
           (case json_loads e (content r) of
              None \<Rightarrow> Inl (OperationOutcomeReason (content r))
            | Some (JObj kvs) \<Rightarrow>
                (if map_of kvs ''resourceType'' = Some (JStr ''OperationOutcome'')
                 then Inl (OperationOutcomeResource (JObj kvs))
                 else Inl (OperationOutcomeReason (content r)))
            | Some _ \<Rightarrow> Inl PyTypeError)"
proof -
  have "sync_handle_response e r rs =
          (case json_loads e (content r) of
             None \<Rightarrow> Inl (OperationOutcomeReason (content r))
           | Some parsed_data \<Rightarrow>
               (case parsed_data of
                  JObj kvs \<Rightarrow>
                    (case map_of kvs ''resourceType'' of
                       None \<Rightarrow> Inl (OperationOutcomeReason (content r))
                     | Some rt \<Rightarrow>
                         if rt = JStr ''OperationOutcome''
                         then Inl (OperationOutcomeResource parsed_data)
                         else Inl (OperationOutcomeReason (content r)))
                | _ \<Rightarrow> Inl PyTypeError))"
    using assms by (auto simp: sync_handle_response_def Let_def)
  also have "\<dots> = (case json_loads e (content r) of
              None \<Rightarrow> Inl (OperationOutcomeReason (content r))
            | Some (JObj kvs) \<Rightarrow>
                (if map_of kvs ''resourceType'' = Some (JStr ''OperationOutcome'')
                 then Inl (OperationOutcomeResource (JObj kvs))
                 else Inl (OperationOutcomeReason (content r)))
            | Some _ \<Rightarrow> Inl PyTypeError)"
    by (simp split: option.split json.split)
  finally show ?thesis .
qed

text \<open>
  C3. At status 500 with the body \<^verbatim>\<open>[]\<close>, which is JSON, the classification raises the
  interpreter's \<^verbatim>\<open>TypeError\<close> and no \<^verbatim>\<open>OperationOutcome\<close>.
\<close>

theorem C3_failing_input:
  "sync_handle_response example_env \<lparr>status_code = 500, content = ''[]''\<rparr> False
     = Inl PyTypeError
   \<and> async_handle_response example_env \<lparr>status_code = 500, content = ''[]''\<rparr> False
     = Inl PyTypeError"
  by (simp add: sync_handle_response_def async_handle_response_def example_env_def
      example_json_loads_def example_body1_def example_body2_def
      example_body3_def)

section \<open>Request headers\<close>

lemma map_of_dict_merge:
  "distinct (map fst e) \<Longrightarrow> map_of (dict_merge d e) = map_of d ++ map_of e"
proof (induction e arbitrary: d)
  case Nil
  then show ?case by (simp add: dict_merge_def)
next
  case (Cons kv e)
  obtain k v where kv: "kv = (k, v)" by (cases kv)
  from Cons.prems kv have notin: "map_of e k = None" and dist: "distinct (map fst e)"
    by (auto simp: map_of_eq_None_iff)
  have "dict_merge d (kv # e) = dict_merge (AList.update k v d) e"
    by (simp add: dict_merge_def kv)
  then have "map_of (dict_merge d (kv # e)) = map_of (AList.update k v d) ++ map_of e"
    using Cons.IH [OF dist] by simp
  then have "map_of (dict_merge d (kv # e)) = (map_of d)(k \<mapsto> v) ++ map_of e"
    by (simp only: update_conv')
  also have "\<dots> = map_of d ++ map_of (kv # e)"
    using notin by (auto simp: kv map_add_def fun_eq_iff split: option.splits)
  finally show ?case .
qed




lemma sync_do_request_sent:
  "s_sent (sync_do_request e c tr method path data params rs) =
     (case build_request_url e (url c) path params of
        Inl err \<Rightarrow> []
      | Inr u \<Rightarrow> [\<lparr>req_method = method, req_url = u, req_json = data,
                   req_headers = sync_request_headers c method,
                   req_options = requests_options c\<rparr>])"
  by (simp add: sync_do_request_def Let_def split: sum.splits option.splits)

lemma async_do_request_sent:
  "a_sent (async_do_request e c tr method path data params rs) =
     (case build_request_url e (url c) path params of
        Inl err \<Rightarrow> []
      | Inr u \<Rightarrow> [\<lparr>req_method = method, req_url = u, req_json = data,
                   req_headers = async_request_headers c method,
                   req_options = aiohttp_config c\<rparr>])"
  by (simp add: async_do_request_def Let_def split: sum.splits option.splits)


lemma example_relative_url:
  "build_request_url example_env ''http://example.com/fhir'' ''Patient'' None
     = Inr ''http://example.com/fhir/Patient?''"
  by (simp add: build_request_url_def example_env_def example_urlparse_def lstrip_slash_def
      rstrip_slash_def)



text \<open>
  \<^verbatim>\<open>SyncSearchSet.patch\<close> passes the method as \<^verbatim>\<open>"PATCH"\<close>, which line 174 compares with
  \<^verbatim>\<open>'patch'\<close>: the request goes out with \<^verbatim>\<open>Content-Type: application/fhir+json\<close>.
\<close>

lemma searchset_patch_content_type:
  "s_sent (sync_searchset_patch example_env example_sync_client empty_ok_transport
      \<lparr>ss_resource_type = ''Patient'', ss_params = []\<rparr>
      \<lparr>resource_type = ''Patient'', res_fields = [(''active'', JBool True)]\<rparr>)
     = [\<lparr>req_method = ''PATCH'', req_url = ''http://example.com/fhir/Patient?'',
         req_json = JObj [(''active'', JBool True)],
         req_headers = [(''Accept'', ''application/fhir+json''),
                        (''Content-Type'', ''application/fhir+json'')],
         req_options = [(''timeout'', JNum 120)]\<rparr>]"
proof -
  have "build_request_url example_env ''http://example.com/fhir'' ''Patient'' (Some [])
          = Inr ''http://example.com/fhir/Patient?''"
    by (simp add: build_request_url_def example_env_def example_urlparse_def lstrip_slash_def
        rstrip_slash_def)
  then show ?thesis
    by (simp add: sync_searchset_patch_def sync_do_request_sent example_sync_client_def
        sync_request_headers_def build_request_headers_def example_env_def)
qed

section \<open>The caller's session\<close>

lemma sync_session_after:
  assumes "build_request_url e (url c) path params = Inr u"
    and "session c = Some sess"
  shows "session (s_client (sync_do_request e c tr method path data params rs)) =
           (case sess \<lparr>req_method = method, req_url = u, req_json = data,
                       req_headers = sync_request_headers c method,
                       req_options = requests_options c\<rparr> of
              Inl err \<Rightarrow> None
            | Inr r \<Rightarrow> Some sess)"
  using assms by (simp add: sync_do_request_def Let_def split: sum.splits)

text \<open>
  C9. A client configured with a session whose \<^verbatim>\<open>request\<close> raises: the exception leaves
  \<^verbatim>\<open>_do_request\<close> between the \<^verbatim>\<open>pop\<close> of line 177 and the assignment of line 182, and the
  client's \<^verbatim>\<open>requests_config\<close> has no session afterwards.
\<close>

theorem C9_failing_input:
  "s_result (sync_do_request example_env (example_sync_client\<lparr>session := Some failing_transport\<rparr>)
      empty_ok_transport ''get'' ''Patient'' JNull None False)
     = Inl (TransportError ''connection refused'')
   \<and> session (s_client (sync_do_request example_env
        (example_sync_client\<lparr>session := Some failing_transport\<rparr>)
        empty_ok_transport ''get'' ''Patient'' JNull None False))
     = None"
  using example_relative_url
  by (simp add: sync_do_request_def example_sync_client_def failing_transport_def)

section \<open>Resource lifecycle\<close>

lemma sync_patch_body_present:
  "set ks \<subseteq> fst ` set data \<Longrightarrow>
     sync_patch_body data ks =
       Inr (map (\<lambda>k. JObj [(''op'', JStr ''add''), (''path'', JStr (''/'' @ k)),
                             (''value'', the (map_of data k))]) ks)"
proof (induction ks)
  case Nil
  then show ?case by simp
next
  case (Cons k ks)
  then have "k \<in> fst ` set data" and sub: "set ks \<subseteq> fst ` set data" by auto
  then obtain v where v: "map_of data k = Some v"
    using map_of_eq_None_iff [of data k] by (cases "map_of data k") auto
  show ?case using Cons.IH [OF sub] v by simp
qed

lemma async_patch_body_present:
  "set ks \<subseteq> fst ` set data \<Longrightarrow>
     async_patch_body data ks acc =
       Inr (dict_merge acc (map (\<lambda>k. (k, the (map_of data k))) ks))"
proof (induction ks arbitrary: acc)
  case Nil
  then show ?case by (simp add: dict_merge_def)
next
  case (Cons k ks)
  then have "k \<in> fst ` set data" and sub: "set ks \<subseteq> fst ` set data" by auto
  then obtain v where v: "map_of data k = Some v"
    using map_of_eq_None_iff [of data k] by (cases "map_of data k") auto
  show ?case using Cons.IH [OF sub] v by (simp add: dict_merge_def)
qed

lemma sync_do_request_method:
  "req \<in> set (s_sent (sync_do_request e c tr method path data params rs))
     \<Longrightarrow> req_method req = method \<and> req_json req = data"
  by (auto simp: sync_do_request_sent split: sum.splits)

lemma async_do_request_method:
  "req \<in> set (a_sent (async_do_request e c tr method path data params rs))
     \<Longrightarrow> req_method req = method \<and> req_json req = data"
  by (auto simp: async_do_request_sent split: sum.splits)

lemma sync_save_sent:
  "sync_save_request e res fs = Inr (method, data) \<Longrightarrow>
     r_sent (sync_save e c tr res fs sp)
       = s_sent (sync_do_request e c tr method (get_path e res) data sp False)"
  by (simp add: sync_save_def Let_def split: sum.splits)

lemma async_save_sent:
  "async_save_request e res fs = Inr (method, data) \<Longrightarrow>
     ar_sent (async_save e c tr res fs sp)
       = a_sent (async_do_request e c tr method (get_path e res) data sp False)"
  by (simp add: async_save_def Let_def split: sum.splits)

lemma sync_save_raises_early:
  "sync_save_request e res fs = Inl err \<Longrightarrow>
     sync_save e c tr res fs sp
       = \<lparr>r_result = Inl err, r_sent = [], r_resource = res, r_client = c\<rparr>"
  by (simp add: sync_save_def)

lemma async_save_raises_early:
  "async_save_request e res fs = Inl err \<Longrightarrow>
     async_save e c tr res fs sp = \<lparr>ar_result = Inl err, ar_sent = [], ar_resource = res\<rparr>"
  by (simp add: async_save_def)

lemma save_request_without_id:
  assumes "\<not> truthy (resource_id res)" and "fs \<noteq> []"
  shows "sync_save_request e res (Some fs) = Inl (TypeError id_required_message)"
    and "async_save_request e res (Some fs) = Inl (TypeError id_required_message)"
  using assms
  by (cases fs; simp add: sync_save_request_def async_save_request_def Let_def)+

lemma save_request_patch:
  assumes "truthy (resource_id res)" and "fs \<noteq> []" and "set fs \<subseteq> fst ` set (serialize e res)"
  shows "sync_save_request e res (Some fs) =
           Inr (''patch'',
                JArr (map (\<lambda>k. JObj [(''op'', JStr ''add''), (''path'', JStr (''/'' @ k)),
                                      (''value'', the (map_of (serialize e res) k))]) fs))"
    and "async_save_request e res (Some fs) =
           Inr (''patch'',
                JObj (dict_merge [] (map (\<lambda>k. (k, the (map_of (serialize e res) k))) fs)))"
proof -
  from assms(2) obtain f fs' where fs: "fs = f # fs'" by (cases fs) auto
  show "sync_save_request e res (Some fs) =
           Inr (''patch'',
                JArr (map (\<lambda>k. JObj [(''op'', JStr ''add''), (''path'', JStr (''/'' @ k)),
                                      (''value'', the (map_of (serialize e res) k))]) fs))"
    using assms(1) sync_patch_body_present [OF assms(3)]
    by (simp add: sync_save_request_def Let_def fs)
  show "async_save_request e res (Some fs) =
           Inr (''patch'',
                JObj (dict_merge [] (map (\<lambda>k. (k, the (map_of (serialize e res) k))) fs)))"
    using assms(1) async_patch_body_present [OF assms(3), of "[]"]
    by (simp add: async_save_request_def Let_def fs)
qed

lemma save_request_full:
  "sync_save_request e res None =
     Inr (if truthy (resource_id res) then ''put'' else ''post'', JObj (serialize e res))"
  "async_save_request e res None =
     Inr (if truthy (resource_id res) then ''put'' else ''post'', JObj (serialize e res))"
  "sync_save_request e res (Some []) =
     Inr (if truthy (resource_id res) then ''put'' else ''post'', JObj (serialize e res))"
  "async_save_request e res (Some []) =
     Inr (if truthy (resource_id res) then ''put'' else ''post'', JObj (serialize e res))"
  by (simp_all add: sync_save_request_def async_save_request_def Let_def)

text \<open>
  C6 (amended). The message of the exception is
  \<^verbatim>\<open>Resource `id` is required for update operation\<close> (\<open>id_required_message\<close>), and the
  test is the truth value of \<^verbatim>\<open>self.id\<close>. With \<^verbatim>\<open>id\<close> false and a field list that is not
  empty, \<^verbatim>\<open>save\<close> raises the \<^verbatim>\<open>TypeError\<close> with no request made and the container as it
  was, in both modes; \<^verbatim>\<open>update\<close> does the same. With \<^verbatim>\<open>id\<close> true, \<^verbatim>\<open>save\<close> with fields that
  the serialization has issues its request with method \<^verbatim>\<open>patch\<close>, and \<^verbatim>\<open>save\<close> without
  fields with method \<^verbatim>\<open>put\<close> and the whole serialization as body.
\<close>

theorem C6_save_requires_id:
  "(\<not> truthy (resource_id res) \<and> fs \<noteq> [] \<longrightarrow>
       sync_save e c tr res (Some fs) sp
         = \<lparr>r_result = Inl (TypeError id_required_message), r_sent = [], r_resource = res,
            r_client = c\<rparr>
     \<and> async_save e c' tr' res (Some fs) sp
         = \<lparr>ar_result = Inl (TypeError id_required_message), ar_sent = [], ar_resource = res\<rparr>)
   \<and> (\<not> truthy (resource_id res) \<longrightarrow>
       sync_update e c tr res
         = \<lparr>r_result = Inl (TypeError id_required_message), r_sent = [], r_resource = res,
            r_client = c\<rparr>
     \<and> async_update e c' tr' res
         = \<lparr>ar_result = Inl (TypeError id_required_message), ar_sent = [], ar_resource = res\<rparr>)
   \<and> (truthy (resource_id res) \<and> fs \<noteq> [] \<and> set fs \<subseteq> fst ` set (serialize e res) \<longrightarrow>
       (\<exists>body. r_sent (sync_save e c tr res (Some fs) sp)
          = s_sent (sync_do_request e c tr ''patch'' (get_path e res) body sp False))
     \<and> (\<forall>req \<in> set (r_sent (sync_save e c tr res (Some fs) sp)). req_method req = ''patch'')
     \<and> (\<exists>body. ar_sent (async_save e c' tr' res (Some fs) sp)
          = a_sent (async_do_request e c' tr' ''patch'' (get_path e res) body sp False))
     \<and> (\<forall>req \<in> set (ar_sent (async_save e c' tr' res (Some fs) sp)). req_method req = ''patch''))
   \<and> (truthy (resource_id res) \<longrightarrow>
       r_sent (sync_save e c tr res None sp)
         = s_sent (sync_do_request e c tr ''put'' (get_path e res) (JObj (serialize e res)) sp
             False)
     \<and> (\<forall>req \<in> set (r_sent (sync_save e c tr res None sp)). req_method req = ''put'')
     \<and> ar_sent (async_save e c' tr' res None sp)
         = a_sent (async_do_request e c' tr' ''put'' (get_path e res) (JObj (serialize e res)) sp
             False)
     \<and> (\<forall>req \<in> set (ar_sent (async_save e c' tr' res None sp)). req_method req = ''put''))"
proof (intro conjI impI)
  assume a: "\<not> truthy (resource_id res) \<and> fs \<noteq> []"
  then show "sync_save e c tr res (Some fs) sp
         = \<lparr>r_result = Inl (TypeError id_required_message), r_sent = [], r_resource = res,
            r_client = c\<rparr>"
    by (simp add: sync_save_raises_early save_request_without_id)
  from a show "async_save e c' tr' res (Some fs) sp
         = \<lparr>ar_result = Inl (TypeError id_required_message), ar_sent = [], ar_resource = res\<rparr>"
    by (simp add: async_save_raises_early save_request_without_id)
next
  assume "\<not> truthy (resource_id res)"
  then show "sync_update e c tr res
         = \<lparr>r_result = Inl (TypeError id_required_message), r_sent = [], r_resource = res,
            r_client = c\<rparr>"
    and "async_update e c' tr' res
         = \<lparr>ar_result = Inl (TypeError id_required_message), ar_sent = [], ar_resource = res\<rparr>"
    by (simp_all add: sync_update_def async_update_def)
next
  assume a: "truthy (resource_id res) \<and> fs \<noteq> [] \<and> set fs \<subseteq> fst ` set (serialize e res)"
  then have t: "truthy (resource_id res)" and ne: "fs \<noteq> []"
    and sub: "set fs \<subseteq> fst ` set (serialize e res)" by auto
  note sreq = save_request_patch(1) [OF t ne sub]
  note areq = save_request_patch(2) [OF t ne sub]
  show "\<exists>body. r_sent (sync_save e c tr res (Some fs) sp)
          = s_sent (sync_do_request e c tr ''patch'' (get_path e res) body sp False)"
    using sync_save_sent [OF sreq] by blast
  show "\<forall>req \<in> set (r_sent (sync_save e c tr res (Some fs) sp)). req_method req = ''patch''"
    unfolding sync_save_sent [OF sreq] by (blast dest: sync_do_request_method)
  show "\<exists>body. ar_sent (async_save e c' tr' res (Some fs) sp)
          = a_sent (async_do_request e c' tr' ''patch'' (get_path e res) body sp False)"
    using async_save_sent [OF areq] by blast
  show "\<forall>req \<in> set (ar_sent (async_save e c' tr' res (Some fs) sp)). req_method req = ''patch''"
    unfolding async_save_sent [OF areq] by (blast dest: async_do_request_method)
next
  assume t: "truthy (resource_id res)"
  have sreq: "sync_save_request e res None = Inr (''put'', JObj (serialize e res))"
    using t by (simp add: save_request_full)
  have areq: "async_save_request e res None = Inr (''put'', JObj (serialize e res))"
    using t by (simp add: save_request_full)
  show "r_sent (sync_save e c tr res None sp)
         = s_sent (sync_do_request e c tr ''put'' (get_path e res) (JObj (serialize e res)) sp
             False)"
    by (rule sync_save_sent [OF sreq])
  show "\<forall>req \<in> set (r_sent (sync_save e c tr res None sp)). req_method req = ''put''"
    unfolding sync_save_sent [OF sreq] by (blast dest: sync_do_request_method)
  show "ar_sent (async_save e c' tr' res None sp)
         = a_sent (async_do_request e c' tr' ''put'' (get_path e res) (JObj (serialize e res)) sp
             False)"
    by (rule async_save_sent [OF areq])
  show "\<forall>req \<in> set (ar_sent (async_save e c' tr' res None sp)). req_method req = ''put''"
    unfolding async_save_sent [OF areq] by (blast dest: async_do_request_method)
qed

lemma example_relative_url_id:
  "build_request_url example_env ''http://example.com/fhir'' ''Patient/42'' None
     = Inr ''http://example.com/fhir/Patient/42?''"
  by (simp add: build_request_url_def example_env_def example_urlparse_def lstrip_slash_def
      rstrip_slash_def)

theorem C6_witness:
  "\<not> truthy (resource_id \<lparr>resource_type = ''Patient'', res_fields = [(''status'', JStr ''active'')]\<rparr>)
   \<and> r_result (sync_save example_env example_sync_client empty_ok_transport
         \<lparr>resource_type = ''Patient'', res_fields = [(''status'', JStr ''active'')]\<rparr>
         (Some [''status'']) None)
       = Inl (TypeError id_required_message)
   \<and> r_sent (sync_save example_env example_sync_client empty_ok_transport
         \<lparr>resource_type = ''Patient'', res_fields = [(''status'', JStr ''active'')]\<rparr>
         (Some [''status'']) None)
       = []
   \<and> ar_result (async_update example_env example_async_client empty_ok_transport
         \<lparr>resource_type = ''Patient'', res_fields = [(''status'', JStr ''active'')]\<rparr>)
       = Inl (TypeError id_required_message)
   \<and> truthy (resource_id \<lparr>resource_type = ''Patient'',
         res_fields = [(''id'', JStr ''42''), (''status'', JStr ''active'')]\<rparr>)
   \<and> map req_method (r_sent (sync_save example_env example_sync_client empty_ok_transport
         \<lparr>resource_type = ''Patient'',
           res_fields = [(''id'', JStr ''42''), (''status'', JStr ''active'')]\<rparr>
         (Some [''status'']) None))
       = [''patch'']
   \<and> map req_method (r_sent (sync_save example_env example_sync_client empty_ok_transport
         \<lparr>resource_type = ''Patient'',
           res_fields = [(''id'', JStr ''42''), (''status'', JStr ''active'')]\<rparr>
         None None))
       = [''put'']"
proof -
  let ?r1 = "\<lparr>resource_type = ''Patient'', res_fields = [(''status'', JStr ''active'')]\<rparr>"
  let ?r2 = "\<lparr>resource_type = ''Patient'',
               res_fields = [(''id'', JStr ''42''), (''status'', JStr ''active'')]\<rparr>"
  note t1 = C6_save_requires_id [of ?r1 "[''status'']" example_env example_sync_client
      empty_ok_transport None example_async_client empty_ok_transport]
  note t2 = C6_save_requires_id [of ?r2 "[''status'']" example_env example_sync_client
      empty_ok_transport None example_async_client empty_ok_transport]
  have h1: "\<not> truthy (resource_id ?r1)" by (simp add: resource_id_def)
  have h2: "truthy (resource_id ?r2)" by (simp add: resource_id_def)
  have h3: "set [''status''] \<subseteq> fst ` set (serialize example_env ?r2)"
    by (simp add: example_env_def)
  have ne: "[''status''] \<noteq> ([] :: string list)" by simp
  have path: "get_path example_env ?r2 = ''Patient/42''"
    by (simp add: example_env_def example_get_path_def resource_id_def)
  have u: "url example_sync_client = ''http://example.com/fhir''"
    by (simp add: example_sync_client_def)
  from t1 h1 ne have s1: "sync_save example_env example_sync_client empty_ok_transport ?r1
        (Some [''status'']) None
      = \<lparr>r_result = Inl (TypeError id_required_message), r_sent = [], r_resource = ?r1,
         r_client = example_sync_client\<rparr>"
    by blast
  from t1 h1 have s2: "async_update example_env example_async_client empty_ok_transport ?r1
      = \<lparr>ar_result = Inl (TypeError id_required_message), ar_sent = [], ar_resource = ?r1\<rparr>"
    by blast
  from t2 h2 h3 ne obtain body where
    s3: "r_sent (sync_save example_env example_sync_client empty_ok_transport ?r2
           (Some [''status'']) None)
         = s_sent (sync_do_request example_env example_sync_client empty_ok_transport ''patch''
             (get_path example_env ?r2) body None False)"
    by blast
  from t2 h2 have
    s4: "r_sent (sync_save example_env example_sync_client empty_ok_transport ?r2 None None)
         = s_sent (sync_do_request example_env example_sync_client empty_ok_transport ''put''
             (get_path example_env ?r2) (JObj (serialize example_env ?r2)) None False)"
    by blast
  have c1: "r_result (sync_save example_env example_sync_client empty_ok_transport ?r1
              (Some [''status'']) None) = Inl (TypeError id_required_message)"
    by (simp add: s1)
  have c2: "r_sent (sync_save example_env example_sync_client empty_ok_transport ?r1
              (Some [''status'']) None) = []"
    by (simp add: s1)
  have c3: "ar_result (async_update example_env example_async_client empty_ok_transport ?r1)
              = Inl (TypeError id_required_message)"
    by (simp add: s2)
  have c4: "map req_method (r_sent (sync_save example_env example_sync_client
              empty_ok_transport ?r2 (Some [''status'']) None)) = [''patch'']"
    unfolding s3 path using example_relative_url_id
    by (simp add: sync_do_request_sent u)
  have c5: "map req_method (r_sent (sync_save example_env example_sync_client
              empty_ok_transport ?r2 None None)) = [''put'']"
    unfolding s4 path using example_relative_url_id
    by (simp add: sync_do_request_sent u)
  from h1 c1 c2 c3 h2 c4 c5 show ?thesis by (intro conjI)
qed

text \<open>
  The claim as stated fails on the message, which is not
  \<^verbatim>\<open>Resource id is required for update\<close>, and on a field list that names a field the
  container lacks: with \<^verbatim>\<open>id\<close> set, \<^verbatim>\<open>data[key]\<close> raises \<^verbatim>\<open>KeyError\<close> and no request, with
  \<^verbatim>\<open>patch\<close> or any other method, is made.
\<close>

theorem C6_counterexample:
  "r_result (sync_save example_env example_sync_client empty_ok_transport
      \<lparr>resource_type = ''Patient'', res_fields = [(''status'', JStr ''active'')]\<rparr>
      (Some [''status'']) None)
     = Inl (TypeError id_required_message)
   \<and> id_required_message \<noteq> ''Resource id is required for update''
   \<and> truthy (resource_id \<lparr>resource_type = ''Patient'', res_fields = [(''id'', JStr ''42'')]\<rparr>)
   \<and> r_result (sync_save example_env example_sync_client empty_ok_transport
        \<lparr>resource_type = ''Patient'', res_fields = [(''id'', JStr ''42'')]\<rparr>
        (Some [''status'']) None)
     = Inl (KeyError ''status'')
   \<and> r_sent (sync_save example_env example_sync_client empty_ok_transport
        \<lparr>resource_type = ''Patient'', res_fields = [(''id'', JStr ''42'')]\<rparr>
        (Some [''status'']) None)
     = []"
  by (simp add: sync_save_def sync_save_request_def resource_id_def example_env_def
      id_required_message_def)

lemma dict_merge_holds_kwargs:
  assumes "distinct (map fst kwargs)" and "kv \<in> set kwargs"
  shows "map_of (dict_merge d kwargs) (fst kv) = Some (snd kv)"
proof -
  obtain k v where kv: "kv = (k, v)" by (cases kv)
  with assms have "map_of kwargs k = Some v" by (simp add: map_of_is_SomeI)
  then show ?thesis
    using map_of_dict_merge [OF assms(1), of d] by (simp add: kv map_add_def)
qed

lemma sync_save_request_raised:
  assumes "sync_save_request e res fs = Inr (method, data)"
    and "s_result (sync_do_request e c tr method (get_path e res) data sp False) = Inl err"
  shows "r_result (sync_save e c tr res fs sp) = Inl err"
    and "r_resource (sync_save e c tr res fs sp) = res"
  using assms by (simp_all add: sync_save_def Let_def)

lemma async_save_request_raised:
  assumes "async_save_request e res fs = Inr (method, data)"
    and "a_result (async_do_request e c tr method (get_path e res) data sp False) = Inl err"
  shows "ar_result (async_save e c tr res fs sp) = Inl err"
    and "ar_resource (async_save e c tr res fs sp) = res"
  using assms by (simp_all add: async_save_def Let_def)

text \<open>
  C10. \<^verbatim>\<open>patch(**kwargs)\<close> runs \<^verbatim>\<open>save\<close> on the container with the keyword arguments merged
  in: the merged container has every given value, the request is built from it, and when
  \<^verbatim>\<open>save\<close> raises before the request or \<^verbatim>\<open>_do_request\<close> raises (URL check, transport,
  response classification), \<^verbatim>\<open>patch\<close> raises the same error and leaves the merged container
  in place. Both modes.
\<close>

theorem C10_patch_keeps_merged_fields:
  assumes "kwargs \<noteq> []" and "distinct (map fst kwargs)"
  shows "\<exists>merged. merged = res\<lparr>res_fields := dict_merge (res_fields res) kwargs\<rparr>
     \<and> (\<forall>kv \<in> set kwargs. map_of (res_fields merged) (fst kv) = Some (snd kv))
     \<and> (\<forall>err. sync_save_request e merged (Some (map fst kwargs)) = Inl err \<longrightarrow>
           sync_patch e c tr res kwargs
             = \<lparr>r_result = Inl err, r_sent = [], r_resource = merged, r_client = c\<rparr>)
     \<and> (\<forall>method data err.
           sync_save_request e merged (Some (map fst kwargs)) = Inr (method, data)
           \<and> s_result (sync_do_request e c tr method (get_path e merged) data None False) = Inl err
           \<longrightarrow> r_result (sync_patch e c tr res kwargs) = Inl err
             \<and> r_resource (sync_patch e c tr res kwargs) = merged
             \<and> r_sent (sync_patch e c tr res kwargs)
                 = s_sent (sync_do_request e c tr method (get_path e merged) data None False))
     \<and> (\<forall>err. async_save_request e merged (Some (map fst kwargs)) = Inl err \<longrightarrow>
           async_patch e c' tr' res kwargs
             = \<lparr>ar_result = Inl err, ar_sent = [], ar_resource = merged\<rparr>)
     \<and> (\<forall>method data err.
           async_save_request e merged (Some (map fst kwargs)) = Inr (method, data)
           \<and> a_result (async_do_request e c' tr' method (get_path e merged) data None False) = Inl err
           \<longrightarrow> ar_result (async_patch e c' tr' res kwargs) = Inl err
             \<and> ar_resource (async_patch e c' tr' res kwargs) = merged
             \<and> ar_sent (async_patch e c' tr' res kwargs)
                 = a_sent (async_do_request e c' tr' method (get_path e merged) data None False))"
proof (intro exI conjI allI impI ballI)
  show "res\<lparr>res_fields := dict_merge (res_fields res) kwargs\<rparr>
          = res\<lparr>res_fields := dict_merge (res_fields res) kwargs\<rparr>" ..
next
  fix kv assume "kv \<in> set kwargs"
  then show "map_of (res_fields (res\<lparr>res_fields := dict_merge (res_fields res) kwargs\<rparr>)) (fst kv)
               = Some (snd kv)"
    using dict_merge_holds_kwargs [OF assms(2)] by simp
next
  fix err
  assume "sync_save_request e (res\<lparr>res_fields := dict_merge (res_fields res) kwargs\<rparr>)
            (Some (map fst kwargs)) = Inl err"
  then show "sync_patch e c tr res kwargs
      = \<lparr>r_result = Inl err, r_sent = [],
         r_resource = res\<lparr>res_fields := dict_merge (res_fields res) kwargs\<rparr>, r_client = c\<rparr>"
    by (simp add: sync_patch_def sync_save_raises_early)
next
  fix m d err
  assume a: "sync_save_request e (res\<lparr>res_fields := dict_merge (res_fields res) kwargs\<rparr>)
               (Some (map fst kwargs)) = Inr (m, d)
     \<and> s_result (sync_do_request e c tr m
          (get_path e (res\<lparr>res_fields := dict_merge (res_fields res) kwargs\<rparr>)) d None False)
        = Inl err"
  then show "r_result (sync_patch e c tr res kwargs) = Inl err"
    and "r_resource (sync_patch e c tr res kwargs)
           = res\<lparr>res_fields := dict_merge (res_fields res) kwargs\<rparr>"
    and "r_sent (sync_patch e c tr res kwargs)
           = s_sent (sync_do_request e c tr m
               (get_path e (res\<lparr>res_fields := dict_merge (res_fields res) kwargs\<rparr>)) d None
               False)"
    by (simp_all add: sync_patch_def sync_save_request_raised sync_save_sent)
next
  fix err
  assume "async_save_request e (res\<lparr>res_fields := dict_merge (res_fields res) kwargs\<rparr>)
            (Some (map fst kwargs)) = Inl err"
  then show "async_patch e c' tr' res kwargs
      = \<lparr>ar_result = Inl err, ar_sent = [],
         ar_resource = res\<lparr>res_fields := dict_merge (res_fields res) kwargs\<rparr>\<rparr>"
    by (simp add: async_patch_def async_save_raises_early)
next
  fix m d err
  assume a: "async_save_request e (res\<lparr>res_fields := dict_merge (res_fields res) kwargs\<rparr>)
               (Some (map fst kwargs)) = Inr (m, d)
     \<and> a_result (async_do_request e c' tr' m
          (get_path e (res\<lparr>res_fields := dict_merge (res_fields res) kwargs\<rparr>)) d None False)
        = Inl err"
  then show "ar_result (async_patch e c' tr' res kwargs) = Inl err"
    and "ar_resource (async_patch e c' tr' res kwargs)
           = res\<lparr>res_fields := dict_merge (res_fields res) kwargs\<rparr>"
    and "ar_sent (async_patch e c' tr' res kwargs)
           = a_sent (async_do_request e c' tr' m
               (get_path e (res\<lparr>res_fields := dict_merge (res_fields res) kwargs\<rparr>)) d None
               False)"
    by (simp_all add: async_patch_def async_save_request_raised async_save_sent)
qed

theorem C10_witness:
  "[(''status'', JStr ''active'')] \<noteq> []
   \<and> distinct (map fst [(''status'', JStr ''active'')])
   \<and> r_result (sync_patch example_env example_sync_client failing_transport
         \<lparr>resource_type = ''Patient'', res_fields = [(''id'', JStr ''42'')]\<rparr>
         [(''status'', JStr ''active'')])
       = Inl (TransportError ''connection refused'')
   \<and> r_resource (sync_patch example_env example_sync_client failing_transport
         \<lparr>resource_type = ''Patient'', res_fields = [(''id'', JStr ''42'')]\<rparr>
         [(''status'', JStr ''active'')])
       = \<lparr>resource_type = ''Patient'',
          res_fields = [(''id'', JStr ''42''), (''status'', JStr ''active'')]\<rparr>
   \<and> map req_method (r_sent (sync_patch example_env example_sync_client failing_transport
         \<lparr>resource_type = ''Patient'', res_fields = [(''id'', JStr ''42'')]\<rparr>
         [(''status'', JStr ''active'')]))
       = [''patch'']"
proof -
  let ?res = "\<lparr>resource_type = ''Patient'', res_fields = [(''id'', JStr ''42'')]\<rparr>"
  let ?kw = "[(''status'', JStr ''active'')]"
  let ?m = "\<lparr>resource_type = ''Patient'',
              res_fields = [(''id'', JStr ''42''), (''status'', JStr ''active'')]\<rparr>"
  let ?body = "JArr [JObj [(''op'', JStr ''add''), (''path'', JStr ''/status''),
                           (''value'', JStr ''active'')]]"
  have ne: "?kw \<noteq> []" by simp
  have dist: "distinct (map fst ?kw)" by simp
  have merged: "?res\<lparr>res_fields := dict_merge (res_fields ?res) ?kw\<rparr> = ?m"
    by (simp add: dict_merge_def)
  have req: "sync_save_request example_env ?m (Some (map fst ?kw)) = Inr (''patch'', ?body)"
    by (simp add: sync_save_request_def resource_id_def example_env_def)
  have path: "get_path example_env ?m = ''Patient/42''"
    by (simp add: example_env_def example_get_path_def resource_id_def)
  have sent: "s_sent (sync_do_request example_env example_sync_client failing_transport ''patch''
                ''Patient/42'' ?body None False)
              = [\<lparr>req_method = ''patch'', req_url = ''http://example.com/fhir/Patient/42?'',
                  req_json = ?body,
                  req_headers = sync_request_headers example_sync_client ''patch'',
                  req_options = requests_options example_sync_client\<rparr>]"
    using example_relative_url_id by (simp add: sync_do_request_sent example_sync_client_def)
  have raised: "s_result (sync_do_request example_env example_sync_client failing_transport
                  ''patch'' (get_path example_env ?m) ?body None False)
                = Inl (TransportError ''connection refused'')"
    unfolding path using example_relative_url_id
    by (simp add: sync_do_request_def example_sync_client_def failing_transport_def)
  from C10_patch_keeps_merged_fields [OF ne dist, of ?res example_env example_sync_client
      failing_transport example_async_client failing_transport]
  have "\<forall>method data err.
           sync_save_request example_env ?m (Some (map fst ?kw)) = Inr (method, data)
           \<and> s_result (sync_do_request example_env example_sync_client failing_transport method
                (get_path example_env ?m) data None False) = Inl err
           \<longrightarrow> r_result (sync_patch example_env example_sync_client failing_transport ?res ?kw)
                 = Inl err
             \<and> r_resource (sync_patch example_env example_sync_client failing_transport ?res ?kw)
                 = ?m
             \<and> r_sent (sync_patch example_env example_sync_client failing_transport ?res ?kw)
                 = s_sent (sync_do_request example_env example_sync_client failing_transport
                     method (get_path example_env ?m) data None False)"
    unfolding merged by blast
  with req raised have
    c1: "r_result (sync_patch example_env example_sync_client failing_transport ?res ?kw)
           = Inl (TransportError ''connection refused'')"
    and c2: "r_resource (sync_patch example_env example_sync_client failing_transport ?res ?kw)
           = ?m"
    and c3: "r_sent (sync_patch example_env example_sync_client failing_transport ?res ?kw)
           = s_sent (sync_do_request example_env example_sync_client failing_transport
               ''patch'' (get_path example_env ?m) ?body None False)"
    by blast+
  have c4: "map req_method (r_sent (sync_patch example_env example_sync_client
              failing_transport ?res ?kw)) = [''patch'']"
    unfolding c3 path sent by simp
  from ne dist c1 c2 c4 show ?thesis by (intro conjI)
qed

section \<open>Pagination\<close>

lemma sync_do_request_ok:
  assumes "s_result (sync_do_request e c tr method path data params rs) = Inr v"
  shows "s_client (sync_do_request e c tr method path data params rs) = c"
    and "length (s_sent (sync_do_request e c tr method path data params rs)) = 1"
  using assms
  by (auto simp: sync_do_request_def Let_def split: sum.splits option.splits)

lemma sync_fetch_resource_ok:
  assumes "s_result (sync_fetch_resource e c tr path params) = Inr v"
  shows "s_client (sync_fetch_resource e c tr path params) = c"
    and "length (s_sent (sync_fetch_resource e c tr path params)) = 1"
  using assms sync_do_request_ok unfolding sync_fetch_resource_def by blast+

lemma sync_iter_loop_step:
  assumes loc: "case nxt of
                  Some u \<Rightarrow> if u \<noteq> [] then path = fst (parse_pagination_url e u)
                                              \<and> params = snd (parse_pagination_url e u)
                            else path = ss_resource_type ss \<and> params = Some (ss_params ss)
                | None \<Rightarrow> path = ss_resource_type ss \<and> params = Some (ss_params ss)"
    and ok: "s_result (sync_fetch_resource e (it_client acc) tr path params) = Inr (Plain page)"
  shows "sync_iter_loop e tr ss nxt acc =
           (let acc' = acc\<lparr>yielded := yielded acc @ get_bundle_resources e page,
                            it_sent := it_sent acc
                               @ s_sent (sync_fetch_resource e (it_client acc) tr path params)\<rparr>
            in if link_truthy (next_link e page)
               then sync_iter_loop e tr ss (next_link e page) acc' else Some acc')"
proof -
  have out: "(case nxt of
                Some u \<Rightarrow>
                  (if u \<noteq> [] then
                     sync_fetch_resource e (it_client acc) tr
                       (fst (parse_pagination_url e u)) (snd (parse_pagination_url e u))
                   else sync_fetch_resource e (it_client acc) tr
                          (ss_resource_type ss) (Some (ss_params ss)))
              | None \<Rightarrow> sync_fetch_resource e (it_client acc) tr
                          (ss_resource_type ss) (Some (ss_params ss)))
             = sync_fetch_resource e (it_client acc) tr path params"
    using loc by (auto split: option.splits if_splits)
  have cl: "s_client (sync_fetch_resource e (it_client acc) tr path params) = it_client acc"
    using sync_fetch_resource_ok(1) [OF ok] .
  show ?thesis
    by (subst sync_iter_loop.simps) (simp add: out ok cl Let_def)
qed

lemma sync_iter_loop_chain:
  assumes "page_chain e (it_client acc) tr path params pages"
    and "case nxt of
           Some u \<Rightarrow> if u \<noteq> [] then path = fst (parse_pagination_url e u)
                                       \<and> params = snd (parse_pagination_url e u)
                     else path = ss_resource_type ss \<and> params = Some (ss_params ss)
         | None \<Rightarrow> path = ss_resource_type ss \<and> params = Some (ss_params ss)"
  shows "\<exists>sent. length sent = length pages
           \<and> sync_iter_loop e tr ss nxt acc
               = Some (acc\<lparr>yielded := yielded acc @ concat (map (get_bundle_resources e) pages),
                           it_sent := it_sent acc @ sent\<rparr>)"
  using assms
proof (induction pages arbitrary: nxt acc path params)
  case Nil
  then show ?case by simp
next
  case (Cons page rest)
  let ?out = "sync_fetch_resource e (it_client acc) tr path params"
  let ?acc' = "acc\<lparr>yielded := yielded acc @ get_bundle_resources e page,
                    it_sent := it_sent acc @ s_sent ?out\<rparr>"
  from Cons.prems(1) have ok: "s_result ?out = Inr (Plain page)"
    by (cases rest) simp_all
  have len1: "length (s_sent ?out) = 1"
    using sync_fetch_resource_ok(2) [OF ok] .
  note step = sync_iter_loop_step [OF Cons.prems(2) ok]
  note IH = Cons.IH
  note chain0 = Cons.prems(1)
  show ?case
  proof (cases rest)
    case Nil
    with chain0 have "\<not> link_truthy (next_link e page)" by simp
    with step have "sync_iter_loop e tr ss nxt acc = Some ?acc'" by (simp add: Let_def)
    with Nil len1 show ?thesis by auto
  next
    case (Cons following rest')
    with chain0 obtain u where u: "next_link e page = Some u" "u \<noteq> []"
      and chain: "page_chain e (it_client acc) tr (fst (parse_pagination_url e u))
                    (snd (parse_pagination_url e u)) rest"
      by (auto split: option.splits)
    have lt: "link_truthy (next_link e page)" using u by (simp add: link_truthy_def)
    have cl': "it_client ?acc' = it_client acc" by simp
    have loc': "case Some u of
                  Some w \<Rightarrow> if w \<noteq> [] then fst (parse_pagination_url e u) = fst (parse_pagination_url e w)
                                          \<and> snd (parse_pagination_url e u) = snd (parse_pagination_url e w)
                            else fst (parse_pagination_url e u) = ss_resource_type ss
                                 \<and> snd (parse_pagination_url e u) = Some (ss_params ss)
                | None \<Rightarrow> fst (parse_pagination_url e u) = ss_resource_type ss
                          \<and> snd (parse_pagination_url e u) = Some (ss_params ss)"
      using u by simp
    from chain cl' have chain': "page_chain e (it_client ?acc') tr
        (fst (parse_pagination_url e u)) (snd (parse_pagination_url e u)) rest"
      by simp
    from IH [OF chain' loc'] obtain sent where
      len: "length sent = length rest" and
      rec: "sync_iter_loop e tr ss (Some u) ?acc'
              = Some (?acc'\<lparr>yielded := yielded ?acc' @ concat (map (get_bundle_resources e) rest),
                            it_sent := it_sent ?acc' @ sent\<rparr>)"
      by blast
    from step lt u rec have
      "sync_iter_loop e tr ss nxt acc
         = Some (acc\<lparr>yielded := yielded acc @ concat (map (get_bundle_resources e) (page # rest)),
                     it_sent := it_sent acc @ (s_sent ?out @ sent)\<rparr>)"
      by (simp add: Let_def)
    moreover have "length (s_sent ?out @ sent) = length (page # rest)"
      using len len1 by simp
    ultimately show ?thesis by blast
  qed
qed

text \<open>
  C5. When the server holds \<open>N\<close> pages chained by their \<^verbatim>\<open>next\<close> links as \<open>page_chain\<close>
  says, the drained iteration (and so \<^verbatim>\<open>fetch_all\<close>) returns: it yields the resources of
  the pages, page after page and in the order within each page, raises nothing, and makes
  exactly \<open>N\<close> transport calls.
\<close>

theorem C5_iteration_follows_next_links:
  assumes "page_chain e c tr (ss_resource_type ss) (Some (ss_params ss)) pages"
  shows "\<exists>out. sync_iter e c tr ss = Some out
           \<and> sync_fetch_all e c tr ss = Some out
           \<and> yielded out = concat (map (get_bundle_resources e) pages)
           \<and> it_error out = None
           \<and> length (it_sent out) = length pages"
proof -
  let ?acc = "\<lparr>yielded = [], it_error = None, it_sent = [], it_client = c\<rparr>"
  have chain: "page_chain e (it_client ?acc) tr (ss_resource_type ss) (Some (ss_params ss)) pages"
    using assms by simp
  have loc: "case None :: string option of
               Some u \<Rightarrow> if u \<noteq> [] then ss_resource_type ss = fst (parse_pagination_url e u)
                                        \<and> Some (ss_params ss) = snd (parse_pagination_url e u)
                         else ss_resource_type ss = ss_resource_type ss
                              \<and> Some (ss_params ss) = Some (ss_params ss)
             | None \<Rightarrow> ss_resource_type ss = ss_resource_type ss
                       \<and> Some (ss_params ss) = Some (ss_params ss)"
    by simp
  from sync_iter_loop_chain [OF chain loc] obtain sent where
    len: "length sent = length pages" and
    run: "sync_iter_loop e tr ss None ?acc
            = Some (?acc\<lparr>yielded := yielded ?acc @ concat (map (get_bundle_resources e) pages),
                         it_sent := it_sent ?acc @ sent\<rparr>)"
    by blast
  from run len show ?thesis
    by (simp add: sync_iter_def sync_fetch_all_def)
qed

lemma example_page_urls:
  "build_request_url example_env ''http://example.com/fhir'' ''Patient'' (Some [])
     = Inr ''http://example.com/fhir/Patient?''"
  "build_request_url example_env ''http://example.com/fhir''
      ''http://example.com/fhir/Patient?page=2'' None
     = Inr ''http://example.com/fhir/Patient?page=2''"
  "build_request_url example_env ''http://example.com/fhir''
      ''http://example.com/fhir/Patient?page=3'' None
     = Inr ''http://example.com/fhir/Patient?page=3''"
  by (simp_all add: build_request_url_def normalize_port_def example_env_def
      example_urlparse_def lstrip_slash_def rstrip_slash_def)

lemma example_pages_fetch:
  "s_result (sync_fetch_resource example_env example_sync_client example_pages_transport
      ''Patient'' (Some [])) = Inr (Plain example_page1)"
  "s_result (sync_fetch_resource example_env example_sync_client example_pages_transport
      ''http://example.com/fhir/Patient?page=2'' None) = Inr (Plain example_page2)"
  "s_result (sync_fetch_resource example_env example_sync_client example_pages_transport
      ''http://example.com/fhir/Patient?page=3'' None) = Inr (Plain example_page3)"
proof -
  have u: "url example_sync_client = ''http://example.com/fhir''"
    and s: "session example_sync_client = None"
    by (simp_all add: example_sync_client_def)
  have loads: "json_loads example_env example_body1 = Some example_page1"
    "json_loads example_env example_body2 = Some example_page2"
    "json_loads example_env example_body3 = Some example_page3"
    by (simp_all add: example_env_def example_json_loads_def example_body1_def
        example_body2_def example_body3_def)
  have ne: "example_body1 \<noteq> []" "example_body2 \<noteq> []" "example_body3 \<noteq> []"
    by (simp_all add: example_body1_def example_body2_def example_body3_def)
  show "s_result (sync_fetch_resource example_env example_sync_client example_pages_transport
      ''Patient'' (Some [])) = Inr (Plain example_page1)"
    by (simp add: sync_fetch_resource_def sync_do_request_def u s example_page_urls
        example_pages_transport_def sync_handle_response_def loads ne)
  show "s_result (sync_fetch_resource example_env example_sync_client example_pages_transport
      ''http://example.com/fhir/Patient?page=2'' None) = Inr (Plain example_page2)"
    by (simp add: sync_fetch_resource_def sync_do_request_def u s example_page_urls
        example_pages_transport_def sync_handle_response_def loads ne)
  show "s_result (sync_fetch_resource example_env example_sync_client example_pages_transport
      ''http://example.com/fhir/Patient?page=3'' None) = Inr (Plain example_page3)"
    by (simp add: sync_fetch_resource_def sync_do_request_def u s example_page_urls
        example_pages_transport_def sync_handle_response_def loads ne)
qed

lemma example_pages_links:
  "next_link example_env example_page1 = Some ''http://example.com/fhir/Patient?page=2''"
  "next_link example_env example_page2 = Some ''http://example.com/fhir/Patient?page=3''"
  "next_link example_env example_page3 = None"
  by (simp_all add: example_env_def example_next_link_def example_page1_def example_page2_def
      example_page3_def example_page_def)

theorem C5_witness:
  "page_chain example_env example_sync_client example_pages_transport ''Patient'' (Some [])
     [example_page1, example_page2, example_page3]
   \<and> (\<exists>out. sync_fetch_all example_env example_sync_client example_pages_transport
               \<lparr>ss_resource_type = ''Patient'', ss_params = []\<rparr> = Some out
          \<and> yielded out = [JObj [(''id'', JStr ''a'')], JObj [(''id'', JStr ''b'')],
                            JObj [(''id'', JStr ''c'')]]
          \<and> it_error out = None
          \<and> length (it_sent out) = 3)"
proof -
  let ?ss = "\<lparr>ss_resource_type = ''Patient'', ss_params = []\<rparr>"
  have pp: "parse_pagination_url example_env u = (u, None)" for u
    by (simp add: example_env_def)
  have chain: "page_chain example_env example_sync_client example_pages_transport ''Patient''
                 (Some []) [example_page1, example_page2, example_page3]"
    by (simp add: example_pages_fetch example_pages_links pp link_truthy_def)
  then have chain': "page_chain example_env example_sync_client example_pages_transport
      (ss_resource_type ?ss) (Some (ss_params ?ss)) [example_page1, example_page2, example_page3]"
    by simp
  have res: "concat (map (get_bundle_resources example_env)
                       [example_page1, example_page2, example_page3])
             = [JObj [(''id'', JStr ''a'')], JObj [(''id'', JStr ''b'')], JObj [(''id'', JStr ''c'')]]"
    by (simp add: example_env_def example_bundle_resources_def example_page1_def
        example_page2_def example_page3_def example_page_def)
  from C5_iteration_follows_next_links [OF chain'] obtain out where
    "sync_fetch_all example_env example_sync_client example_pages_transport ?ss = Some out"
    "yielded out = concat (map (get_bundle_resources example_env)
                             [example_page1, example_page2, example_page3])"
    "it_error out = None"
    "length (it_sent out) = length [example_page1, example_page2, example_page3]"
    by blast
  with res have "\<exists>out. sync_fetch_all example_env example_sync_client example_pages_transport
               ?ss = Some out
          \<and> yielded out = [JObj [(''id'', JStr ''a'')], JObj [(''id'', JStr ''b'')],
                            JObj [(''id'', JStr ''c'')]]
          \<and> it_error out = None
          \<and> length (it_sent out) = 3"
    by simp
  with chain show ?thesis by (intro conjI)
qed

section \<open>Blocking and deferred mode\<close>













end
